theory Spec2Isabelle
  imports Complex_Main "HOL-Library.Multiset"
begin

section \<open>JavaScript values\<close>

text \<open>
  The editors are browser scripts. Their numbers (coordinates, sizes, scales) are modelled
  as \<^typ>\<open>real\<close>: arithmetic is exact, so the rounding of IEEE doubles, \<open>NaN\<close> and the
  infinities are outside the model. In particular a division by zero is \<open>0\<close> in HOL and
  \<open>Infinity\<close> or \<open>NaN\<close> in JavaScript: a zoom scale is positive by hypothesis where
  a property depends on it, and the bounding rectangle of the visible canvas is taken to
  have a positive width and height.
  Page numbers are integers. A value that may be \<open>null\<close> or \<open>undefined\<close> is an
  \<^typ>\<open>'a option\<close>. An object is a reference into a store, so that two variables holding
  the same object see each other's writes and \<open>===\<close> on objects is equality of references.
\<close>

type_synonym ref = nat

definition truthy :: "string option \<Rightarrow> bool" where
  \<comment> \<open>\<open>null\<close>, \<open>undefined\<close> and the empty string are falsy\<close>
  "truthy v = (case v of None \<Rightarrow> False | Some s \<Rightarrow> s \<noteq> [])"

definition truthy_bool :: "bool option \<Rightarrow> bool" where
  \<comment> \<open>\<open>b || false\<close> and \<open>if (b)\<close> for a value that is a boolean or \<open>null\<close>\<close>
  "truthy_bool v = (v = Some True)"

fun findIndex :: "('a \<Rightarrow> bool) \<Rightarrow> 'a list \<Rightarrow> int" where
  \<comment> \<open>\<open>Array.prototype.findIndex\<close>: the first index whose element passes, or \<open>-1\<close>\<close>
  "findIndex P [] = - 1"
| "findIndex P (a # as) =
     (if P a then 0 else (let i = findIndex P as in if i = - 1 then - 1 else i + 1))"

definition splice1 :: "int \<Rightarrow> 'a list \<Rightarrow> 'a list" where
  \<comment> \<open>\<open>xs.splice(i, 1)\<close> for an index \<open>i \<ge> 0\<close> (every call site checks \<open>i !== -1\<close> first)\<close>
  "splice1 i xs = take (nat i) xs @ drop (Suc (nat i)) xs"

section \<open>Fill page of the portfolio editor (editpage\_portfolio.js)\<close>

text \<open>
  \<open>portfolioEditor.fieldInputs\<close> maps a field name to what \<open>overlayFormFields\<close> stored
  for it: an \<open><input>\<close> element of type checkbox, date or text (the only three it
  creates), or the signature object \<open>{type: 'signature', pad, getValue, ...}\<close>, whose
  \<open>getValue()\<close> is the pad's \<open>toDataURL()\<close>. The object is an association list in insertion
  order (what \<open>Object.keys\<close> enumerates), written to by assignment.
\<close>

datatype input_type = CheckboxInput | DateInput | TextInput

datatype field_input =
    InputElement input_type bool string  \<comment> \<open>\<open>type\<close>, \<open>checked\<close>, \<open>value\<close>\<close>
  | SignatureInput string                \<comment> \<open>the data URL \<open>pad.toDataURL()\<close> returns\<close>

datatype form_value = BoolValue bool | StringValue string

fun assign :: "'k \<Rightarrow> 'v \<Rightarrow> ('k \<times> 'v) list \<Rightarrow> ('k \<times> 'v) list" where
  \<comment> \<open>\<open>obj[k] = v\<close>: overwrite in place, or append a new property\<close>
  "assign k v [] = [(k, v)]"
| "assign k v ((k', v') # m) = (if k = k' then (k, v) # m else (k', v') # assign k v m)"

fun collect_input :: "field_input \<Rightarrow> form_value" where
  "collect_input (SignatureInput url) = StringValue url"
| "collect_input (InputElement CheckboxInput checked val) = BoolValue checked"
| "collect_input (InputElement t checked val) = StringValue val"

fun collect_keys ::
  "(string \<times> field_input) list \<Rightarrow> string list \<Rightarrow> (string \<times> form_value) list
     \<Rightarrow> (string \<times> form_value) list" where
  \<comment> \<open>the \<open>forEach\<close> over \<open>Object.keys(fieldInputs)\<close>; a key without a (truthy) input is skipped\<close>
  "collect_keys fieldInputs [] formValues = formValues"
| "collect_keys fieldInputs (fieldName # ks) formValues =
     (case map_of fieldInputs fieldName of
        None \<Rightarrow> collect_keys fieldInputs ks formValues
      | Some input \<Rightarrow>
          collect_keys fieldInputs ks (assign fieldName (collect_input input) formValues))"

definition collectFormValues :: "(string \<times> field_input) list \<Rightarrow> (string \<times> form_value) list" where
  "collectFormValues fieldInputs = collect_keys fieldInputs (map fst fieldInputs) []"

section \<open>The design page (designpage.js): state\<close>

text \<open>
  A placed field is the object literal the canvas click handler builds. \<open>required\<close> and
  \<open>readonly\<close> are \<open>checkbox && checkbox.checked\<close>, which is \<open>null\<close> when the checkbox
  element is missing from the page.
\<close>

record field =
  f_type :: string
  f_name :: string
  f_x :: real
  f_y :: real
  f_width :: real
  f_height :: real
  f_page :: int
  f_required :: "bool option"
  f_readonly :: "bool option"
  f_fontSize :: real
  f_selected :: bool

text \<open>
  The globals of the script, the store of field objects, and the part of the page the
  handlers read and write: the size of the canvas, and the three inputs of the properties
  panel (\<open>None\<close> when the element does not exist, otherwise its current value).
  \<open>panelField\<close> is the field object captured by the \<open>oninput\<close>/\<open>onchange\<close> closures that
  \<open>updateFieldPropertiesPanel\<close> installs, \<open>None\<close> when they are \<open>null\<close>. \<open>pdfDoc\<close> holds the
  unscaled (width, height) of every page of the loaded document.
\<close>

record dstate =
  heap :: "ref \<Rightarrow> field"
  next_ref :: ref
  placedFields :: "ref list"
  currentFieldType :: "string option"
  pageNum :: int
  pdfDoc :: "(real \<times> real) list option"
  canvasWidth :: real
  canvasHeight :: real
  isDragging :: bool
  isResizing :: bool
  dragFieldIndex :: int
  resizeDirection :: string
  startX :: real
  startY :: real
  originalX :: real
  originalY :: real
  originalWidth :: real
  originalHeight :: real
  copiedField :: "field option"
  fieldNameInput :: "string option"
  requiredCheckbox :: "bool option"
  readonlyCheckbox :: "bool option"
  panelField :: "ref option"

text \<open>
  A mouse event together with the bounding rectangle \<open>getBoundingClientRect()\<close> returns
  for the element the handler measures at that moment.
\<close>

record mouse =
  clientX :: real
  clientY :: real
  shiftKey :: bool
  rect_left :: real
  rect_top :: real
  rect_width :: real
  rect_height :: real

definition scale :: real where
  "scale = 12 / 10"

definition numPages :: "dstate \<Rightarrow> int" where
  "numPages s = (case pdfDoc s of None \<Rightarrow> 0 | Some ps \<Rightarrow> int (length ps))"

definition alloc :: "field \<Rightarrow> dstate \<Rightarrow> dstate" where
  \<comment> \<open>a new object, pushed onto \<open>placedFields\<close>\<close>
  "alloc fld s =
     s\<lparr>heap := (heap s)(next_ref s := fld),
       placedFields := placedFields s @ [next_ref s],
       next_ref := Suc (next_ref s)\<rparr>"

fun forEach_selected :: "(nat \<Rightarrow> bool) \<Rightarrow> nat \<Rightarrow> ref list \<Rightarrow> (ref \<Rightarrow> field) \<Rightarrow> (ref \<Rightarrow> field)" where
  \<comment> \<open>\<open>placedFields.forEach((f, i) => f.selected = P(i))\<close>, from index \<open>i\<close> on\<close>
  "forEach_selected P i [] h = h"
| "forEach_selected P i (r # rs) h =
     forEach_selected P (Suc i) rs (h(r := (h r)\<lparr>f_selected := P i\<rparr>))"

definition setSelected :: "(nat \<Rightarrow> bool) \<Rightarrow> dstate \<Rightarrow> dstate" where
  "setSelected P s = s\<lparr>heap := forEach_selected P 0 (placedFields s) (heap s)\<rparr>"

section \<open>The design page: hit testing\<close>

definition isPointInField :: "real \<Rightarrow> real \<Rightarrow> field \<Rightarrow> bool" where
  "isPointInField px py fld =
     (px \<ge> f_x fld \<and> px \<le> f_x fld + f_width fld \<and>
      py \<ge> f_y fld \<and> py \<le> f_y fld + f_height fld)"

fun scan_down :: "(ref \<Rightarrow> field) \<Rightarrow> real \<Rightarrow> real \<Rightarrow> ref list \<Rightarrow> nat \<Rightarrow> ref option" where
  \<comment> \<open>\<open>for (let i = n - 1; i >= 0; i--)\<close> with its early return; the argument is \<open>i + 1\<close>\<close>
  "scan_down h px py cur 0 = None"
| "scan_down h px py cur (Suc i) =
     (if isPointInField px py (h (cur ! i)) then Some (cur ! i) else scan_down h px py cur i)"

definition getFieldAtPosition :: "dstate \<Rightarrow> real \<Rightarrow> real \<Rightarrow> int" where
  "getFieldAtPosition s px py =
     (let currentPageFields = filter (\<lambda>r. f_page (heap s r) = pageNum s - 1) (placedFields s)
      in case scan_down (heap s) px py currentPageFields (length currentPageFields) of
           None \<Rightarrow> - 1
         | Some fld \<Rightarrow> findIndex (\<lambda>f. f = fld) (placedFields s))"

section \<open>The design page: rendering and the properties panel\<close>

definition toCanvasSize :: "real \<Rightarrow> real" where
  \<comment> \<open>\<open>canvas.width\<close> and \<open>canvas.height\<close> are integers: an assignment keeps the integer
      part of the number (of a viewport size, which is not negative)\<close>
  "toCanvasSize v = of_int \<lfloor>v\<rfloor>"

definition renderPage :: "int \<Rightarrow> dstate \<Rightarrow> dstate" where
  \<comment> \<open>the state a completed \<open>renderPage(num)\<close> leaves: nothing without a document; a page
      that does not exist makes \<open>getPage\<close> reject, and \<open>showPDFError\<close> resizes the canvas\<close>
  "renderPage num s =
     (case pdfDoc s of
        None \<Rightarrow> s
      | Some ps \<Rightarrow>
          if 1 \<le> num \<and> num \<le> int (length ps)
          then s\<lparr>pageNum := num,
                 canvasWidth := toCanvasSize (fst (ps ! nat (num - 1)) * scale),
                 canvasHeight := toCanvasSize (snd (ps ! nat (num - 1)) * scale)\<rparr>
          else s\<lparr>pageNum := num, canvasWidth := 600, canvasHeight := 400\<rparr>)"

definition drawFieldOverlay :: "field \<Rightarrow> real \<times> real \<times> real \<times> real" where
  \<comment> \<open>the rectangle handed to \<open>ctx.strokeRect\<close>, in canvas pixels\<close>
  "drawFieldOverlay fld = (f_x fld, f_y fld, f_width fld, f_height fld)"

definition drawnOverlays :: "dstate \<Rightarrow> (real \<times> real \<times> real \<times> real) list" where
  \<comment> \<open>what \<open>renderPage\<close> draws over the page: the fields of the current page\<close>
  "drawnOverlays s =
     map (\<lambda>r. drawFieldOverlay (heap s r))
       (filter (\<lambda>r. f_page (heap s r) = pageNum s - 1) (placedFields s))"

definition updateFieldPropertiesPanel :: "int \<Rightarrow> dstate \<Rightarrow> dstate" where
  "updateFieldPropertiesPanel fieldIndex s =
     (if fieldIndex < 0 \<or> fieldIndex \<ge> int (length (placedFields s)) then s
      else let r = placedFields s ! nat fieldIndex; fld = heap s r in
        s\<lparr>fieldNameInput := map_option (\<lambda>_. f_name fld) (fieldNameInput s),
          requiredCheckbox := map_option (\<lambda>_. truthy_bool (f_required fld)) (requiredCheckbox s),
          readonlyCheckbox := map_option (\<lambda>_. truthy_bool (f_readonly fld)) (readonlyCheckbox s),
          panelField := Some r\<rparr>)"

definition clearFieldPropertiesPanel :: "dstate \<Rightarrow> dstate" where
  "clearFieldPropertiesPanel s =
     s\<lparr>fieldNameInput := map_option (\<lambda>_. []) (fieldNameInput s),
       requiredCheckbox := map_option (\<lambda>_. False) (requiredCheckbox s),
       readonlyCheckbox := map_option (\<lambda>_. False) (readonlyCheckbox s),
       panelField := None\<rparr>"

definition selectField :: "int \<Rightarrow> dstate \<Rightarrow> dstate" where
  "selectField fieldIndex s =
     (if fieldIndex < 0 \<or> fieldIndex \<ge> int (length (placedFields s)) then s
      else let s1 = setSelected (\<lambda>i. int i = fieldIndex) s;
               s2 = updateFieldPropertiesPanel fieldIndex s1
           in renderPage (pageNum s2) s2)"

section \<open>The design page: event handlers\<close>

definition canvasX :: "dstate \<Rightarrow> mouse \<Rightarrow> real" where
  "canvasX s e = ((clientX e - rect_left e) / rect_width e) * canvasWidth s"

definition canvasY :: "dstate \<Rightarrow> mouse \<Rightarrow> real" where
  "canvasY s e = ((clientY e - rect_top e) / rect_height e) * canvasHeight s"

definition defaultDims :: "string \<Rightarrow> real \<times> real" where
  \<comment> \<open>\<open>let width = 150, height = 24\<close> and the two \<open>if\<close>s after it\<close>
  "defaultDims t =
     (if t = ''signature'' then (200, 40)
      else if t = ''checkbox'' then (20, 20)
      else (150, 24))"

definition canvasClick :: "mouse \<Rightarrow> string option \<Rightarrow> dstate \<Rightarrow> dstate" where
  \<comment> \<open>the \<open>click\<close> listener of the canvas; \<open>answer\<close> is what \<open>prompt\<close> would return\<close>
  "canvasClick e answer s =
     (if isDragging s \<or> isResizing s then s
      else case currentFieldType s of
        None \<Rightarrow> s
      | Some t \<Rightarrow>
          if t = [] then s
          else let px = canvasX s e; py = canvasY s e;
                   fieldIndex = getFieldAtPosition s px py
          in if fieldIndex \<noteq> - 1 then selectField fieldIndex s
             else let fieldName = (if truthy (fieldNameInput s) then fieldNameInput s else answer)
             in case fieldName of
                  None \<Rightarrow> s
                | Some nm \<Rightarrow>
                    if nm = [] then s
                    else let newField =
                               \<lparr>f_type = t, f_name = nm, f_x = px, f_y = py,
                                f_width = fst (defaultDims t), f_height = snd (defaultDims t),
                                f_page = pageNum s - 1,
                                f_required = requiredCheckbox s,
                                f_readonly = readonlyCheckbox s,
                                f_fontSize = 12, f_selected = True\<rparr>;
                             s1 = setSelected (\<lambda>_. False) s;
                             s2 = alloc newField s1;
                             s3 = updateFieldPropertiesPanel (int (length (placedFields s2)) - 1) s2;
                             s4 = renderPage (pageNum s3) s3
                         in if shiftKey e then s4 else s4\<lparr>currentFieldType := None\<rparr>)"

definition canvasMouseDown :: "mouse \<Rightarrow> dstate \<Rightarrow> dstate" where
  "canvasMouseDown e s =
     (if truthy (currentFieldType s) then s
      else let px = canvasX s e; py = canvasY s e;
               fieldIndex = getFieldAtPosition s px py
      in if fieldIndex \<noteq> - 1 then
           (let fld = heap s (placedFields s ! nat fieldIndex);
                resizeHandleSize = 8;
                isNearRight = \<bar>(f_x fld + f_width fld) - px\<bar> < resizeHandleSize;
                isNearBottom = \<bar>(f_y fld + f_height fld) - py\<bar> < resizeHandleSize;
                isNearLeft = \<bar>f_x fld - px\<bar> < resizeHandleSize;
                isNearTop = \<bar>f_y fld - py\<bar> < resizeHandleSize;
                s1 = (if isNearRight \<or> isNearBottom \<or> isNearLeft \<or> isNearTop then
                        setSelected (\<lambda>i. int i = fieldIndex)
                          (s\<lparr>isResizing := True,
                             resizeDirection :=
                               (if isNearRight then ''e'' else []) @ (if isNearBottom then ''s'' else []) @
                               (if isNearLeft then ''w'' else []) @ (if isNearTop then ''n'' else []),
                             originalX := f_x fld, originalY := f_y fld,
                             originalWidth := f_width fld, originalHeight := f_height fld,
                             startX := px, startY := py,
                             dragFieldIndex := fieldIndex\<rparr>)
                      else
                        setSelected (\<lambda>i. int i = fieldIndex)
                          (s\<lparr>isDragging := True, dragFieldIndex := fieldIndex,
                             startX := px, startY := py,
                             originalX := f_x fld, originalY := f_y fld\<rparr>));
                s2 = updateFieldPropertiesPanel fieldIndex s1
            in renderPage (pageNum s2) s2)
         else
           (let hadSelection = (\<exists>r \<in> set (placedFields s). f_selected (heap s r));
                s1 = clearFieldPropertiesPanel (setSelected (\<lambda>_. False) s)
            in if hadSelection then renderPage (pageNum s1) s1 else s1))"

definition resizeField :: "dstate \<Rightarrow> real \<Rightarrow> real \<Rightarrow> field \<Rightarrow> field" where
  \<comment> \<open>the writes of the resizing branch of \<open>mousemove\<close>, for the deltas of the pointer\<close>
  "resizeField s deltaX deltaY fld =
     (let f1 = (if CHR ''e'' \<in> set (resizeDirection s) then
                  fld\<lparr>f_width := max 20 (originalWidth s + deltaX)\<rparr>
                else if CHR ''w'' \<in> set (resizeDirection s) then
                  (let newWidth = max 20 (originalWidth s - deltaX)
                   in fld\<lparr>f_x := originalX s + (originalWidth s - newWidth), f_width := newWidth\<rparr>)
                else fld)
      in if CHR ''s'' \<in> set (resizeDirection s) then
           f1\<lparr>f_height := max 20 (originalHeight s + deltaY)\<rparr>
         else if CHR ''n'' \<in> set (resizeDirection s) then
           (let newHeight = max 20 (originalHeight s - deltaY)
            in f1\<lparr>f_y := originalY s + (originalHeight s - newHeight), f_height := newHeight\<rparr>)
         else f1)"

definition canvasMouseMove :: "mouse \<Rightarrow> dstate \<Rightarrow> dstate" where
  \<comment> \<open>\<open>placedFields[dragFieldIndex]\<close> is \<open>undefined\<close> when the index is stale; the first write
      to it then throws and the handler ends with nothing changed. The last part of the
      handler only sets the cursor.\<close>
  "canvasMouseMove e s =
     (let px = canvasX s e; py = canvasY s e in
      if isResizing s \<and> dragFieldIndex s \<noteq> - 1 then
        (if 0 \<le> dragFieldIndex s \<and> dragFieldIndex s < int (length (placedFields s)) then
           (let r = placedFields s ! nat (dragFieldIndex s);
                s1 = s\<lparr>heap := (heap s)(r := resizeField s (px - startX s) (py - startY s) (heap s r))\<rparr>
            in renderPage (pageNum s1) s1)
         else s)
      else if isDragging s \<and> dragFieldIndex s \<noteq> - 1 then
        (if 0 \<le> dragFieldIndex s \<and> dragFieldIndex s < int (length (placedFields s)) then
           (let r = placedFields s ! nat (dragFieldIndex s);
                s1 = s\<lparr>heap := (heap s)(r := (heap s r)\<lparr>f_x := originalX s + (px - startX s),
                                                         f_y := originalY s + (py - startY s)\<rparr>)\<rparr>
            in renderPage (pageNum s1) s1)
         else s)
      else s)"

definition canvasMouseUp :: "dstate \<Rightarrow> dstate" where
  \<comment> \<open>also the \<open>mouseleave\<close> listener\<close>
  "canvasMouseUp s = s\<lparr>isDragging := False, isResizing := False\<rparr>"

text \<open>
  The toolbar: four buttons, each calling \<open>selectFieldType\<close> with a literal. These are the
  only calls of \<open>selectFieldType\<close> in the script.
\<close>

datatype toolbar_button = AddTextBox | AddSignature | AddCheckbox | AddNumber

fun button_type :: "toolbar_button \<Rightarrow> string" where
  "button_type AddTextBox = ''text''"
| "button_type AddSignature = ''signature''"
| "button_type AddCheckbox = ''checkbox''"
| "button_type AddNumber = ''number''"

definition selectFieldType :: "string \<Rightarrow> dstate \<Rightarrow> dstate" where
  "selectFieldType t s = s\<lparr>currentFieldType := Some t\<rparr>"

text \<open>The keys the \<open>keydown\<close> listener tells apart, after \<open>e.key.toLowerCase()\<close>.\<close>

datatype key = Delete | Backspace | ArrowLeft | ArrowRight | ArrowUp | ArrowDown
  | KeyC | KeyV | KeyA | OtherKey

definition moveSelected :: "int \<Rightarrow> (field \<Rightarrow> field) \<Rightarrow> dstate \<Rightarrow> dstate" where
  \<comment> \<open>\<open>if (field) { field.x -= ...; renderPage(pageNum); }\<close> for \<open>field = placedFields[selectedIndex]\<close>\<close>
  "moveSelected selectedIndex upd s =
     (if 0 \<le> selectedIndex \<and> selectedIndex < int (length (placedFields s)) then
        (let r = placedFields s ! nat selectedIndex;
             s1 = s\<lparr>heap := (heap s)(r := upd (heap s r))\<rparr>
         in renderPage (pageNum s1) s1)
      else s)"

definition keydown :: "key \<Rightarrow> bool \<Rightarrow> bool \<Rightarrow> dstate \<Rightarrow> dstate" where
  \<comment> \<open>\<open>keydown k shift ctrl\<close>\<close>
  "keydown k shift ctrl s =
     (let currentPageFields = filter (\<lambda>r. f_page (heap s r) = pageNum s - 1) (placedFields s);
          selectedIndex = findIndex (\<lambda>r. f_selected (heap s r)) (placedFields s);
          d = (if shift then 10 else 1)
      in if currentPageFields = [] then s
         else if selectedIndex = - 1 \<and> k \<noteq> KeyA then s
         else case k of
           Delete \<Rightarrow>
             (if selectedIndex \<noteq> - 1 then
                (let s1 = clearFieldPropertiesPanel
                            (s\<lparr>placedFields := splice1 selectedIndex (placedFields s)\<rparr>)
                 in renderPage (pageNum s1) s1)
              else s)
         | Backspace \<Rightarrow>
             (if selectedIndex \<noteq> - 1 then
                (let s1 = clearFieldPropertiesPanel
                            (s\<lparr>placedFields := splice1 selectedIndex (placedFields s)\<rparr>)
                 in renderPage (pageNum s1) s1)
              else s)
         | ArrowLeft \<Rightarrow> moveSelected selectedIndex (\<lambda>fld. fld\<lparr>f_x := f_x fld - d\<rparr>) s
         | ArrowRight \<Rightarrow> moveSelected selectedIndex (\<lambda>fld. fld\<lparr>f_x := f_x fld + d\<rparr>) s
         | ArrowUp \<Rightarrow> moveSelected selectedIndex (\<lambda>fld. fld\<lparr>f_y := f_y fld - d\<rparr>) s
         | ArrowDown \<Rightarrow> moveSelected selectedIndex (\<lambda>fld. fld\<lparr>f_y := f_y fld + d\<rparr>) s
         | KeyC \<Rightarrow>
             (if ctrl \<and> 0 \<le> selectedIndex \<and> selectedIndex < int (length (placedFields s)) then
                s\<lparr>copiedField := Some (heap s (placedFields s ! nat selectedIndex))\<rparr>
              else s)
         | KeyV \<Rightarrow>
             (case copiedField s of
                None \<Rightarrow> s
              | Some copied \<Rightarrow>
                  if ctrl then
                    (let newField = copied\<lparr>f_name := f_name copied @ ''_copy'',
                                           f_x := f_x copied + 20, f_y := f_y copied + 20,
                                           f_page := pageNum s - 1, f_selected := True\<rparr>;
                         s1 = setSelected (\<lambda>_. False) s;
                         s2 = alloc newField s1;
                         s3 = updateFieldPropertiesPanel (int (length (placedFields s2)) - 1) s2
                     in renderPage (pageNum s3) s3)
                  else s)
         | KeyA \<Rightarrow>
             (if ctrl then
                (let s1 = s\<lparr>heap := (\<lambda>r. if r \<in> set (placedFields s) \<and> f_page (heap s r) = pageNum s - 1
                                          then (heap s r)\<lparr>f_selected := True\<rparr> else heap s r)\<rparr>
                 in renderPage (pageNum s1) s1)
              else s)
         | OtherKey \<Rightarrow> s)"

text \<open>
  The user edits an input of the properties panel: the element takes the new value and,
  when a closure is installed on it, the captured field is written.
\<close>

definition nameInput :: "string \<Rightarrow> dstate \<Rightarrow> dstate" where
  "nameInput v s =
     (case fieldNameInput s of
        None \<Rightarrow> s
      | Some _ \<Rightarrow>
          (let s1 = s\<lparr>fieldNameInput := Some v\<rparr> in
           case panelField s of
             None \<Rightarrow> s1
           | Some r \<Rightarrow>
               (let s2 = s1\<lparr>heap := (heap s1)(r := (heap s1 r)\<lparr>f_name := v\<rparr>)\<rparr>
                in renderPage (pageNum s2) s2)))"

definition requiredChange :: "bool \<Rightarrow> dstate \<Rightarrow> dstate" where
  "requiredChange b s =
     (case requiredCheckbox s of
        None \<Rightarrow> s
      | Some _ \<Rightarrow>
          (let s1 = s\<lparr>requiredCheckbox := Some b\<rparr> in
           case panelField s of
             None \<Rightarrow> s1
           | Some r \<Rightarrow> s1\<lparr>heap := (heap s1)(r := (heap s1 r)\<lparr>f_required := Some b\<rparr>)\<rparr>))"

definition readonlyChange :: "bool \<Rightarrow> dstate \<Rightarrow> dstate" where
  "readonlyChange b s =
     (case readonlyCheckbox s of
        None \<Rightarrow> s
      | Some _ \<Rightarrow>
          (let s1 = s\<lparr>readonlyCheckbox := Some b\<rparr> in
           case panelField s of
             None \<Rightarrow> s1
           | Some r \<Rightarrow> s1\<lparr>heap := (heap s1)(r := (heap s1 r)\<lparr>f_readonly := Some b\<rparr>)\<rparr>))"

text \<open>Page navigation, installed once the document is loaded.\<close>

definition prevPage :: "dstate \<Rightarrow> dstate" where
  "prevPage s = (if pdfDoc s = None \<or> pageNum s \<le> 1 then s else renderPage (pageNum s - 1) s)"

definition nextPage :: "dstate \<Rightarrow> dstate" where
  "nextPage s = (if pdfDoc s = None \<or> pageNum s \<ge> numPages s then s else renderPage (pageNum s + 1) s)"

definition pageInput :: "int option \<Rightarrow> dstate \<Rightarrow> dstate" where
  \<comment> \<open>the argument is \<open>parseInt\<close> of the input, \<open>None\<close> for \<open>NaN\<close>\<close>
  "pageInput n s =
     (case n of
        None \<Rightarrow> s
      | Some num \<Rightarrow>
          if pdfDoc s = None \<or> num < 1 \<or> num > numPages s then s else renderPage num s)"

datatype event =
    Click mouse "string option"
  | MouseDown mouse
  | MouseMove mouse
  | MouseUp
  | MouseLeave
  | KeyDown key bool bool
  | Toolbar toolbar_button
  | NameInput string
  | RequiredChange bool
  | ReadonlyChange bool
  | PrevPage
  | NextPage
  | PageInput "int option"

fun step :: "event \<Rightarrow> dstate \<Rightarrow> dstate" where
  "step (Click e answer) s = canvasClick e answer s"
| "step (MouseDown e) s = canvasMouseDown e s"
| "step (MouseMove e) s = canvasMouseMove e s"
| "step MouseUp s = canvasMouseUp s"
| "step MouseLeave s = canvasMouseUp s"
| "step (KeyDown k shift ctrl) s = keydown k shift ctrl s"
| "step (Toolbar b) s = selectFieldType (button_type b) s"
| "step (NameInput v) s = nameInput v s"
| "step (RequiredChange b) s = requiredChange b s"
| "step (ReadonlyChange b) s = readonlyChange b s"
| "step PrevPage s = prevPage s"
| "step NextPage s = nextPage s"
| "step (PageInput n) s = pageInput n s"

definition blankField :: field where
  \<comment> \<open>the content of a store cell before an object is allocated there; never read\<close>
  "blankField =
     \<lparr>f_type = [], f_name = [], f_x = 0, f_y = 0, f_width = 0, f_height = 0, f_page = 0,
      f_required = None, f_readonly = None, f_fontSize = 0, f_selected = False\<rparr>"

definition initialState :: "(real \<times> real) list \<Rightarrow> dstate" where
  \<comment> \<open>the globals as the script initialises them, once \<open>loadPDF\<close> has loaded a document with
      these pages and rendered page 1, on a page that has the three panel inputs\<close>
  "initialState ps =
     renderPage 1
       \<lparr>heap = (\<lambda>_. blankField), next_ref = 0, placedFields = [], currentFieldType = None,
        pageNum = 1, pdfDoc = Some ps, canvasWidth = 0, canvasHeight = 0,
        isDragging = False, isResizing = False, dragFieldIndex = - 1, resizeDirection = [],
        startX = 0, startY = 0, originalX = 0, originalY = 0, originalWidth = 0,
        originalHeight = 0, copiedField = None, fieldNameInput = Some [],
        requiredCheckbox = Some False, readonlyCheckbox = Some False, panelField = None\<rparr>"

section \<open>The design page: saving the PDF\<close>

text \<open>
  \<open>savePDFWithFields\<close> goes through the placed fields page by page and, in a
  \<open>try\<close>/\<open>catch\<close> of its own for each field, calls pdf-lib: \<open>createTextField\<close>,
  \<open>createCheckBox\<close> or \<open>createSignature\<close> with the field's name, then \<open>addToPage\<close> with a
  rectangle. A \<open>widget\<close> is a call of \<open>addToPage\<close> that the code reaches, with the field
  it is made for. An exception inside the \<open>try\<close> is logged and the loop goes on with the
  next field. The pdf-lib document is the list of its page heights; \<open>getPage\<close> throws for
  an index outside it, and that exception is not caught by the loop.

  Two facts of pdf-lib decide which calls of \<open>addToPage\<close> are reached. \<open>setText\<close> returns
  nothing, so \<open>textField.setText(...).enableMultiline()\<close> is a method call on \<open>undefined\<close>;
  and the form has no method \<open>createSignature\<close>. Both end in a \<open>TypeError\<close> before
  \<open>addToPage\<close>. pdf-lib also refuses \<open>createTextField\<close> and \<open>createCheckBox\<close> for a name
  its form already has; that exception is caught in the same way and skips the field. The
  names in the form are not part of this model: it gives the calls made when pdf-lib
  accepts every name.
\<close>

datatype widget_kind = TextField | NumberField | CheckBox | SignatureField

datatype lib_error = TypeError

definition setText :: "string \<Rightarrow> unit option" where
  \<comment> \<open>the value of \<open>textField.setText(text)\<close>: \<open>undefined\<close>\<close>
  "setText text = None"

definition createSignature :: "(string \<Rightarrow> unit) option" where
  \<comment> \<open>the value of \<open>form.createSignature\<close>: \<open>undefined\<close>\<close>
  "createSignature = None"

record widget =
  w_kind :: widget_kind
  w_name :: string
  w_page :: int
  w_x :: real
  w_y :: real
  w_width :: real
  w_height :: real
  w_required :: bool
  w_readOnly :: bool

datatype save_error = NoSuchPage int

fun push_by_page :: "int \<Rightarrow> ref \<Rightarrow> (int \<times> ref list) list \<Rightarrow> (int \<times> ref list) list" where
  \<comment> \<open>\<open>if (!fieldsByPage[k]) fieldsByPage[k] = []; fieldsByPage[k].push(field)\<close>\<close>
  "push_by_page k r [] = [(k, [r])]"
| "push_by_page k r ((k', rs) # m) =
     (if k = k' then (k', rs @ [r]) # m else (k', rs) # push_by_page k r m)"

definition fieldsByPage :: "(ref \<Rightarrow> field) \<Rightarrow> ref list \<Rightarrow> (int \<times> ref list) list" where
  "fieldsByPage h flds = foldl (\<lambda>m r. push_by_page (f_page (h r)) r m) [] flds"

definition object_entries :: "(int \<times> 'a) list \<Rightarrow> (int \<times> 'a) list" where
  \<comment> \<open>\<open>Object.entries\<close>: the keys that are array indices in ascending order, then the other
      keys (here the negative ones) in insertion order\<close>
  "object_entries m =
     sort_key fst (filter (\<lambda>kv. 0 \<le> fst kv) m) @ filter (\<lambda>kv. fst kv < 0) m"

definition tryAddField :: "real \<Rightarrow> int \<Rightarrow> field \<Rightarrow> lib_error + widget option" where
  \<comment> \<open>the \<open>try\<close> block of \<open>fields.forEach\<close>: the \<open>switch\<close> has no default, so another type
      reaches nothing; \<open>field.defaultValue\<close> is never set, so \<open>setText\<close> gets the empty string\<close>
  "tryAddField pageHeight pageIndex fld =
     (let pdfY = pageHeight - f_y fld - f_height fld;
          w = \<lparr>w_kind = TextField, w_name = f_name fld, w_page = pageIndex,
               w_x = f_x fld, w_y = pdfY, w_width = f_width fld, w_height = f_height fld,
               w_required = truthy_bool (f_required fld), w_readOnly = False\<rparr>
      in if f_type fld = ''text'' then
           (case setText [] of
              None \<Rightarrow> Inl TypeError
            | Some _ \<Rightarrow> Inr (Some (w\<lparr>w_kind := TextField, w_readOnly := truthy_bool (f_readonly fld)\<rparr>)))
         else if f_type fld = ''number'' then
           (case setText [] of
              None \<Rightarrow> Inl TypeError
            | Some _ \<Rightarrow> Inr (Some (w\<lparr>w_kind := NumberField, w_readOnly := truthy_bool (f_readonly fld)\<rparr>)))
         else if f_type fld = ''checkbox'' then Inr (Some (w\<lparr>w_kind := CheckBox\<rparr>))
         else if f_type fld = ''signature'' then
           (case createSignature of
              None \<Rightarrow> Inl TypeError
            | Some _ \<Rightarrow> Inr (Some (w\<lparr>w_kind := SignatureField\<rparr>)))
         else Inr None)"

definition addField :: "real \<Rightarrow> int \<Rightarrow> field \<Rightarrow> widget option" where
  \<comment> \<open>the body of \<open>fields.forEach\<close>: \<open>catch (fieldErr)\<close> logs the error and adds nothing\<close>
  "addField pageHeight pageIndex fld =
     (case tryAddField pageHeight pageIndex fld of
        Inl err \<Rightarrow> None
      | Inr added \<Rightarrow> added)"

fun addFieldsToPages ::
  "(ref \<Rightarrow> field) \<Rightarrow> real list \<Rightarrow> (int \<times> ref list) list \<Rightarrow> widget list
     \<Rightarrow> save_error + widget list" where
  \<comment> \<open>\<open>for (const [pageIndex, fields] of Object.entries(fieldsByPage))\<close>\<close>
  "addFieldsToPages h heights [] acc = Inr acc"
| "addFieldsToPages h heights ((pageIndex, flds) # rest) acc =
     (if pageIndex \<ge> int (length heights) then addFieldsToPages h heights rest acc
      else if pageIndex < 0 then Inl (NoSuchPage pageIndex)
      else addFieldsToPages h heights rest
             (acc @ List.map_filter (\<lambda>r. addField (heights ! nat pageIndex) pageIndex (h r)) flds))"

definition addPlacedFields :: "dstate \<Rightarrow> real list \<Rightarrow> save_error + widget list" where
  "addPlacedFields s heights =
     addFieldsToPages (heap s) heights (object_entries (fieldsByPage (heap s) (placedFields s))) []"

definition savePDFWithFields :: "real list option \<Rightarrow> (widget list \<Rightarrow> bool) \<Rightarrow> dstate \<Rightarrow> bool" where
  \<comment> \<open>\<open>pdfLibDoc\<close> is the pdf-lib document after the attempt to load it (\<open>None\<close> when that
      failed); \<open>persist\<close> stands for \<open>pdfLibDoc.save\<close> and the upload, \<open>False\<close> when either fails\<close>
  "savePDFWithFields pdfLibDoc persist s =
     (case pdfLibDoc of
        None \<Rightarrow> False
      | Some heights \<Rightarrow>
          (case addPlacedFields s heights of
             Inl err \<Rightarrow> False
           | Inr ws \<Rightarrow> persist ws))"

section \<open>The portfolio design page (designpage\_portfolio.js): state\<close>

text \<open>
  A field descriptor of the portfolio editor. \<open>addFormField\<close> builds it with an id, without
  \<open>options\<close>; a descriptor that comes back from the server in \<open>loadFormFields\<close> has whatever
  the stored schema has, so \<open>id\<close>, \<open>read_only\<close> and \<open>options\<close> may be \<open>undefined\<close>.
\<close>

record pfield =
  p_id :: "string option"
  p_name :: string
  p_type :: string
  p_x :: real
  p_y :: real
  p_width :: real
  p_height :: real
  p_page :: int
  p_required :: bool
  p_read_only :: "bool option"
  p_default_value :: string
  p_options :: "string list option"

text \<open>
  The script declares \<open>function showNotification\<close> at its top level, which in a classic
  script makes it \<open>window.showNotification\<close>. Its first statement hands the call on to
  \<open>window.showNotification\<close> when that is a function: with the script's own function there
  the call never comes back and ends in \<open>RangeError: Maximum call stack size exceeded\<close>.
  Only a page that binds another function to that name after the script has loaded, or
  that has none (a module script, where the fallback of the function runs), gets a call
  that returns. Which of the three a page has is part of the state, and never changes.
\<close>

datatype js_error = RangeError

datatype notifier = ScriptsOwn | AnotherFunction | NoFunction

text \<open>
  The globals of the script. \<open>activeField\<close> is a reference to a field object, usually one
  of \<open>formFields\<close>. The inputs with ids \<open>fieldName\<close>, \<open>required\<close> and \<open>readonly\<close> that
  \<open>updateSelectedField\<close> reads are \<open>None\<close> when the page has no such element.
\<close>

record pstate =
  pheap :: "ref \<Rightarrow> pfield"
  pnext :: ref
  formFields :: "ref list"
  activeField :: "ref option"
  pf_isDragging :: bool
  pf_startX :: real
  pf_startY :: real
  fieldTypeToAdd :: "string option"
  isPlacingField :: bool
  currentPage :: int
  totalPages :: int
  currentScale :: real
  fileId :: "string option"
  pf_fieldName :: "string option"
  pf_required :: "bool option"
  pf_readonly :: "bool option"
  notifier :: notifier

definition showNotification :: "pstate \<Rightarrow> js_error option" where
  \<comment> \<open>a call of \<open>showNotification\<close>: the exception it ends in, or \<open>None\<close> when it returns\<close>
  "showNotification s =
     (case notifier s of
        ScriptsOwn \<Rightarrow> Some RangeError
      | AnotherFunction \<Rightarrow> None
      | NoFunction \<Rightarrow> None)"

record field_type_def =
  label :: string
  icon :: string
  defaultHeight :: real
  defaultWidth :: real

definition fieldTypes :: "(string \<times> field_type_def) list" where
  "fieldTypes =
     [(''text'', \<lparr>label = ''Text Input'', icon = ''edit'', defaultHeight = 40, defaultWidth = 200\<rparr>),
      (''checkbox'', \<lparr>label = ''Checkbox'', icon = ''check_box'', defaultHeight = 40, defaultWidth = 40\<rparr>),
      (''signature'', \<lparr>label = ''Signature'', icon = ''draw'', defaultHeight = 80, defaultWidth = 200\<rparr>),
      (''date'', \<lparr>label = ''Date Field'', icon = ''calendar_today'', defaultHeight = 40, defaultWidth = 200\<rparr>)]"

definition or_default :: "real option \<Rightarrow> real \<Rightarrow> real" where
  \<comment> \<open>\<open>v || d\<close> for a number that may be \<open>undefined\<close>\<close>
  "or_default v d = (case v of None \<Rightarrow> d | Some n \<Rightarrow> if n = 0 then d else n)"

definition toUpperCase_char :: "char \<Rightarrow> char" where
  \<comment> \<open>on ASCII, which the type names are\<close>
  "toUpperCase_char c =
     (let n = (of_char c :: nat) in if 97 \<le> n \<and> n \<le> 122 then char_of (n - 32) else c)"

definition capitalize :: "string \<Rightarrow> string" where
  \<comment> \<open>\<open>type.charAt(0).toUpperCase() + type.slice(1)\<close>\<close>
  "capitalize t = (case t of [] \<Rightarrow> [] | c # cs \<Rightarrow> toUpperCase_char c # cs)"

function string_of_nat :: "nat \<Rightarrow> string" where
  "string_of_nat n =
     (if n < 10 then [char_of (48 + n)]
      else string_of_nat (n div 10) @ [char_of (48 + n mod 10)])"
  by pat_completeness auto
termination
  by (relation "measure id") auto

declare string_of_nat.simps [simp del]

section \<open>The portfolio design page: rendering\<close>

record overlay_element =
  data_field_id :: string
  el_left :: real
  el_top :: real
  el_width :: real
  el_height :: real
  el_label :: string

definition fieldElement :: "real \<Rightarrow> pfield \<Rightarrow> overlay_element" where
  \<comment> \<open>one \<open>div.form-field\<close>; \<open>setAttribute\<close> writes an \<open>undefined\<close> id as the text \<open>undefined\<close>\<close>
  "fieldElement sc fld =
     \<lparr>data_field_id = (case p_id fld of None \<Rightarrow> ''undefined'' | Some i \<Rightarrow> i),
      el_left = p_x fld * sc, el_top = p_y fld * sc,
      el_width = p_width fld * sc, el_height = p_height fld * sc,
      el_label = p_name fld\<rparr>"

definition renderFormFields :: "int \<Rightarrow> pstate \<Rightarrow> overlay_element list" where
  \<comment> \<open>the children of the overlay after the call\<close>
  "renderFormFields pageNumber s =
     map (\<lambda>r. fieldElement (currentScale s) (pheap s r))
       (filter (\<lambda>r. p_page (pheap s r) = pageNumber) (formFields s))"

section \<open>The portfolio design page: event handlers\<close>

definition pf_updateFieldPropertiesPanel :: "pstate \<Rightarrow> pstate" where
  "pf_updateFieldPropertiesPanel s =
     (case activeField s of
        None \<Rightarrow> s
      | Some a \<Rightarrow>
          if pf_fieldName s \<noteq> None \<and> pf_required s \<noteq> None \<and> pf_readonly s \<noteq> None then
            s\<lparr>pf_fieldName := Some (p_name (pheap s a)),
              pf_required := Some (p_required (pheap s a)),
              pf_readonly := Some (truthy_bool (p_read_only (pheap s a)))\<rparr>
          else s)"

definition deselectField :: "pstate \<Rightarrow> pstate" where
  "deselectField s = s\<lparr>activeField := None\<rparr>"

definition pf_selectField :: "string option \<Rightarrow> pstate \<Rightarrow> pstate" where
  \<comment> \<open>\<open>formFields.find(f => f.id === fieldId)\<close>\<close>
  "pf_selectField fieldId s =
     (case find (\<lambda>r. p_id (pheap s r) = fieldId) (formFields s) of
        None \<Rightarrow> s
      | Some r \<Rightarrow> pf_updateFieldPropertiesPanel (s\<lparr>activeField := Some r\<rparr>))"

definition pf_selectFieldType :: "string \<Rightarrow> pstate \<Rightarrow> pstate" where
  \<comment> \<open>\<open>showNotification\<close> is the last call, after both assignments\<close>
  "pf_selectFieldType t s =
     (if fieldTypeToAdd s = Some t then s\<lparr>fieldTypeToAdd := None, isPlacingField := False\<rparr>
      else s\<lparr>fieldTypeToAdd := Some t, isPlacingField := True\<rparr>)"

definition addFormField ::
  "string \<Rightarrow> string \<Rightarrow> real \<Rightarrow> real \<Rightarrow> int \<Rightarrow> pstate \<Rightarrow> pstate \<times> js_error option" where
  \<comment> \<open>\<open>addFormField(type, x, y, page)\<close>: the state it leaves and the exception it throws, if
      any. \<open>fieldId\<close> is the string that \<open>Date.now()\<close> and \<open>Math.random()\<close> make at that
      moment. The field is pushed and made the active field before \<open>showNotification\<close> is
      called; the panel is updated after it.\<close>
  "addFormField fieldId t px py pg s =
     (let defaultWidth' = or_default (map_option defaultWidth (map_of fieldTypes t)) 200;
          defaultHeight' = or_default (map_option defaultHeight (map_of fieldTypes t)) 40;
          fld = \<lparr>p_id = Some fieldId,
                 p_name = capitalize t @ ''_'' @ string_of_nat (length (formFields s) + 1),
                 p_type = t, p_x = px, p_y = py,
                 p_width = defaultWidth', p_height = defaultHeight',
                 p_page = pg, p_required = False, p_read_only = Some False,
                 p_default_value = [], p_options = None\<rparr>;
          s1 = s\<lparr>pheap := (pheap s)(pnext s := fld),
                 formFields := formFields s @ [pnext s],
                 pnext := Suc (pnext s),
                 activeField := Some (pnext s)\<rparr>
      in case showNotification s1 of
           Some err \<Rightarrow> (s1, Some err)
         | None \<Rightarrow> (pf_updateFieldPropertiesPanel s1, None))"

definition handleOverlayClick :: "mouse \<Rightarrow> string \<Rightarrow> pstate \<Rightarrow> pstate" where
  \<comment> \<open>the state one call of the listener leaves, whether it returns or throws: an
      exception of \<open>addFormField\<close> leaves the listener before the placing mode is left\<close>
  "handleOverlayClick e fieldId s =
     (if \<not> isPlacingField s then s
      else case fieldTypeToAdd s of
        None \<Rightarrow> s
      | Some t \<Rightarrow>
          if t = [] then s
          else let px = (clientX e - rect_left e) / currentScale s;
                   py = (clientY e - rect_top e) / currentScale s;
                   added = addFormField fieldId t px py (currentPage s) s
               in case snd added of
                    Some err \<Rightarrow> fst added
                  | None \<Rightarrow> (fst added)\<lparr>fieldTypeToAdd := None, isPlacingField := False\<rparr>)"

definition updateSelectedField :: "pstate \<Rightarrow> pstate" where
  "updateSelectedField s =
     (case activeField s of
        None \<Rightarrow> s
      | Some a \<Rightarrow>
          (let f1 = (case pf_fieldName s of None \<Rightarrow> pheap s a | Some v \<Rightarrow> (pheap s a)\<lparr>p_name := v\<rparr>);
               f2 = (case pf_required s of None \<Rightarrow> f1 | Some b \<Rightarrow> f1\<lparr>p_required := b\<rparr>);
               f3 = (case pf_readonly s of None \<Rightarrow> f2 | Some b \<Rightarrow> f2\<lparr>p_read_only := Some b\<rparr>);
               h = (pheap s)(a := f3);
               index = findIndex (\<lambda>r. p_id (h r) = p_id (h a)) (formFields s)
           in s\<lparr>pheap := h,
                formFields := (if index \<noteq> - 1 then (formFields s)[nat index := a] else formFields s)\<rparr>))"

definition deleteSelectedField :: "pstate \<Rightarrow> pstate" where
  \<comment> \<open>\<open>showNotification\<close> is the last call, after the field is removed and deselected\<close>
  "deleteSelectedField s =
     (case activeField s of
        None \<Rightarrow> s
      | Some a \<Rightarrow>
          (let fieldIndex = findIndex (\<lambda>r. p_id (pheap s r) = p_id (pheap s a)) (formFields s);
               s1 = (if fieldIndex \<noteq> - 1
                     then s\<lparr>formFields := splice1 fieldIndex (formFields s)\<rparr> else s)
           in deselectField s1))"

definition handleOverlayMouseDown :: "string option \<Rightarrow> mouse \<Rightarrow> pstate \<Rightarrow> pstate" where
  \<comment> \<open>the first argument is the \<open>data-field-id\<close> of the field element under the pointer,
      \<open>None\<close> over empty space\<close>
  "handleOverlayMouseDown target e s =
     (case target of
        Some fieldId \<Rightarrow>
          (pf_selectField (Some fieldId) s)
            \<lparr>pf_isDragging := True, pf_startX := clientX e, pf_startY := clientY e\<rparr>
      | None \<Rightarrow> deselectField s)"

definition handleOverlayMouseMove :: "mouse \<Rightarrow> pstate \<Rightarrow> pstate" where
  "handleOverlayMouseMove e s =
     (case activeField s of
        None \<Rightarrow> s
      | Some a \<Rightarrow>
          if \<not> pf_isDragging s then s
          else let deltaX = (clientX e - pf_startX s) / currentScale s;
                   deltaY = (clientY e - pf_startY s) / currentScale s
               in s\<lparr>pheap := (pheap s)(a := (pheap s a)\<lparr>p_x := p_x (pheap s a) + deltaX,
                                                         p_y := p_y (pheap s a) + deltaY\<rparr>),
                    pf_startX := clientX e, pf_startY := clientY e\<rparr>)"

definition handleOverlayMouseUp :: "pstate \<Rightarrow> pstate" where
  "handleOverlayMouseUp s = s\<lparr>pf_isDragging := False\<rparr>"

fun load_objects :: "pfield list \<Rightarrow> pstate \<Rightarrow> pstate" where
  \<comment> \<open>the objects of a parsed JSON array: one new object each\<close>
  "load_objects [] s = s"
| "load_objects (fld # flds) s =
     load_objects flds
       (s\<lparr>pheap := (pheap s)(pnext s := fld), formFields := formFields s @ [pnext s],
          pnext := Suc (pnext s)\<rparr>)"

definition loadFormFields :: "pfield list \<Rightarrow> pstate \<Rightarrow> pstate" where
  \<comment> \<open>\<open>formFields = data.schema.fields || []\<close> for the schema the server answered; the
      request is made after a call of \<open>showNotification\<close>, and not at all when that throws\<close>
  "loadFormFields flds s =
     (if \<not> truthy (fileId s) then s
      else case showNotification s of
             Some err \<Rightarrow> s
           | None \<Rightarrow> load_objects flds (s\<lparr>formFields := []\<rparr>))"

definition blankPField :: pfield where
  \<comment> \<open>the content of a store cell before an object is allocated there; never read\<close>
  "blankPField =
     \<lparr>p_id = None, p_name = [], p_type = [], p_x = 0, p_y = 0, p_width = 0, p_height = 0,
      p_page = 0, p_required = False, p_read_only = None, p_default_value = [],
      p_options = None\<rparr>"

definition pf_initialState :: "string option \<Rightarrow> int \<Rightarrow> pstate" where
  \<comment> \<open>the globals as the script initialises them, for the file id of the page and the
      page count of the loaded document, on a page without the three panel inputs and
      without another script that defines \<open>showNotification\<close>\<close>
  "pf_initialState fid n =
     \<lparr>pheap = (\<lambda>_. blankPField), pnext = 0, formFields = [], activeField = None,
      pf_isDragging = False, pf_startX = 0, pf_startY = 0, fieldTypeToAdd = None,
      isPlacingField = False, currentPage = 1, totalPages = n, currentScale = 1,
      fileId = fid, pf_fieldName = None, pf_required = None, pf_readonly = None,
      notifier = ScriptsOwn\<rparr>"

definition toolButtons :: "string list" where
  \<comment> \<open>the \<open>data-type\<close> of the buttons of the tools panel: \<open>initializeUI\<close> writes one button
      for every entry of \<open>fieldTypes\<close>\<close>
  "toolButtons = map fst fieldTypes"

text \<open>
  The events are calls of the listeners. \<open>FieldButton t\<close> is a click on the button of the
  tools panel whose \<open>data-type\<close> is \<open>t\<close>; there is no button of another type.
  \<open>OverlayClick\<close> is one call of \<open>handleOverlayClick\<close>, which is the click listener of the
  overlay and of \<open>#pdf-container\<close> around it: a click on the overlay calls it twice, the
  second time as the click bubbles, also when the first call threw.
\<close>

datatype pevent =
    FieldButton string
  | OverlayClick mouse string
  | OverlayMouseDown "string option" mouse
  | OverlayMouseMove mouse
  | OverlayMouseUp
  | FieldElementClick ref
  | EditFieldName string
  | EditRequired bool
  | EditReadonly bool
  | PropertyChange
  | DeleteButton
  | ZoomIn
  | ZoomOut
  | PrevPageButton
  | NextPageButton
  | PageNumberInput "int option"
  | SchemaLoaded "pfield list"

fun pstep :: "pevent \<Rightarrow> pstate \<Rightarrow> pstate" where
  "pstep (FieldButton t) s = (if t \<in> set toolButtons then pf_selectFieldType t s else s)"
| "pstep (OverlayClick e fieldId) s = handleOverlayClick e fieldId s"
| "pstep (OverlayMouseDown target e) s = handleOverlayMouseDown target e s"
| "pstep (OverlayMouseMove e) s = handleOverlayMouseMove e s"
| "pstep OverlayMouseUp s = handleOverlayMouseUp s"
| "pstep (FieldElementClick r) s = pf_selectField (p_id (pheap s r)) s"
| "pstep (EditFieldName v) s = s\<lparr>pf_fieldName := map_option (\<lambda>_. v) (pf_fieldName s)\<rparr>"
| "pstep (EditRequired b) s = s\<lparr>pf_required := map_option (\<lambda>_. b) (pf_required s)\<rparr>"
| "pstep (EditReadonly b) s = s\<lparr>pf_readonly := map_option (\<lambda>_. b) (pf_readonly s)\<rparr>"
| "pstep PropertyChange s = updateSelectedField s"
| "pstep DeleteButton s = deleteSelectedField s"
| "pstep ZoomIn s = s\<lparr>currentScale := currentScale s + 1 / 10\<rparr>"
| "pstep ZoomOut s =
     (if currentScale s > 2 / 10 then s\<lparr>currentScale := currentScale s - 1 / 10\<rparr> else s)"
| "pstep PrevPageButton s = (if currentPage s > 1 then s\<lparr>currentPage := currentPage s - 1\<rparr> else s)"
| "pstep NextPageButton s =
     (if currentPage s < totalPages s then s\<lparr>currentPage := currentPage s + 1\<rparr> else s)"
| "pstep (PageNumberInput n) s =
     (case n of
        None \<Rightarrow> s
      | Some newPage \<Rightarrow>
          if newPage \<noteq> 0 \<and> newPage > 0 \<and> newPage \<le> totalPages s
          then s\<lparr>currentPage := newPage\<rparr> else s)"
| "pstep (SchemaLoaded flds) s = loadFormFields flds s"

section \<open>The portfolio design page: saving the schema\<close>

datatype jsval = Undefined | Bool bool | Num real | Str string

definition schemaEntry :: "pfield \<Rightarrow> (string \<times> jsval) list" where
  \<comment> \<open>the object literal \<open>saveForm\<close> maps every field to, property by property\<close>
  "schemaEntry fld =
     [(''name'', Str (p_name fld)),
      (''type'', Str (p_type fld)),
      (''x'', Num (p_x fld)),
      (''y'', Num (p_y fld)),
      (''width'', Num (p_width fld)),
      (''height'', Num (p_height fld)),
      (''page'', Num (of_int (p_page fld))),
      (''required'', Bool (p_required fld)),
      (''default_value'', Str (p_default_value fld))]"

record save_request =
  file_id :: string
  schema_fields :: "(string \<times> jsval) list list"

definition schemaToSave :: "pstate \<Rightarrow> (string \<times> jsval) list list" where
  \<comment> \<open>\<open>schemaToSave.fields\<close>, built before anything is sent\<close>
  "schemaToSave s = map (\<lambda>r. schemaEntry (pheap s r)) (formFields s)"

definition saveForm :: "pstate \<Rightarrow> js_error + save_request option" where
  \<comment> \<open>\<open>Inr (Some body)\<close>: the body is posted to \<open>/api/save-form-schema\<close>; \<open>Inr None\<close>:
      the function returns without a request (no file id); \<open>Inl\<close>: it throws, which a call
      of \<open>showNotification\<close> can make it do before \<open>fetch\<close> is reached\<close>
  "saveForm s =
     (case fileId s of
        None \<Rightarrow> (case showNotification s of Some err \<Rightarrow> Inl err | None \<Rightarrow> Inr None)
      | Some fid \<Rightarrow>
          if fid = [] then (case showNotification s of Some err \<Rightarrow> Inl err | None \<Rightarrow> Inr None)
          else (case showNotification s of
                  Some err \<Rightarrow> Inl err
                | None \<Rightarrow> Inr (Some \<lparr>file_id = fid, schema_fields = schemaToSave s\<rparr>)))"

section \<open>Notions used to state the properties\<close>

text \<open>
  Field \<open>i\<close> of \<open>placedFields\<close> is on the current page and contains the point.
\<close>

definition hit :: "dstate \<Rightarrow> real \<Rightarrow> real \<Rightarrow> nat \<Rightarrow> bool" where
  "hit s px py i =
     (i < length (placedFields s) \<and>
      f_page (heap s (placedFields s ! i)) = pageNum s - 1 \<and>
      isPointInField px py (heap s (placedFields s ! i)))"

text \<open>
  The objects of \<open>placedFields\<close> are pairwise different and allocated: the handlers only
  ever push an object they have just made.
\<close>

definition wellFormed :: "dstate \<Rightarrow> bool" where
  "wellFormed s = (distinct (placedFields s) \<and> (\<forall>r \<in> set (placedFields s). r < next_ref s))"

text \<open>
  The type names of the field descriptor as the specification lists them, and the names
  the toolbar of the design page can select.
\<close>

definition descriptorTypes :: "string list" where
  "descriptorTypes = [''text'', ''checkbox'', ''signature'', ''date'', ''number'',
                      ''radiobutton'', ''combobox'', ''listbox'']"

definition toolbarTypes :: "string list" where
  "toolbarTypes = map button_type [AddTextBox, AddSignature, AddCheckbox, AddNumber]"

definition toolbarTyped :: "dstate \<Rightarrow> bool" where
  "toolbarTyped s =
     ((\<forall>r \<in> set (placedFields s). f_type (heap s r) \<in> set toolbarTypes) \<and>
      (\<forall>t. currentFieldType s = Some t \<longrightarrow> t \<in> set toolbarTypes) \<and>
      (\<forall>fld. copiedField s = Some fld \<longrightarrow> f_type fld \<in> set toolbarTypes))"

text \<open>
  For the portfolio design page: the objects of \<open>formFields\<close> and the active field are
  allocated (the same object may be in the list twice, after \<open>updateSelectedField\<close> on
  fields that share an id), and every field object made so far and the type selected for
  placing have a type of the descriptor.
\<close>

definition pf_wellFormed :: "pstate \<Rightarrow> bool" where
  "pf_wellFormed s =
     ((\<forall>r \<in> set (formFields s). r < pnext s) \<and>
      (\<forall>a. activeField s = Some a \<longrightarrow> a < pnext s))"

definition descriptorTyped :: "pstate \<Rightarrow> bool" where
  "descriptorTyped s =
     ((\<forall>r < pnext s. p_type (pheap s r) \<in> set descriptorTypes) \<and>
      (\<forall>t. fieldTypeToAdd s = Some t \<longrightarrow> t \<in> set descriptorTypes))"



section \<open>Example sessions\<close>

text \<open>
  A US Letter document on the design page: at the fixed scale 1.2 the viewport is 734.4
  by 950.4, so the canvas is 734 by 950 pixels. It fills its bounding rectangle, so the
  canvas position of a click is its offset in the rectangle. The clicks of the examples
  are in the middle of the canvas, at (367, 475).
\<close>

definition clickAt :: "real \<Rightarrow> real \<Rightarrow> mouse" where
  "clickAt cx cy =
     \<lparr>clientX = cx, clientY = cy, shiftKey = False, rect_left = 0, rect_top = 0,
      rect_width = 734, rect_height = 950\<rparr>"

definition placingText :: dstate where
  "placingText = step (Toolbar AddTextBox) (initialState [(612, 792)])"

definition clickedText :: dstate where
  "clickedText = step (Click (clickAt 367 475) (Some ''Name'')) placingText"

definition clickedCheckbox :: dstate where
  "clickedCheckbox =
     step (Click (clickAt 367 475) (Some ''Agree''))
       (step (Toolbar AddCheckbox) (initialState [(612, 792)]))"

text \<open>
  Four placed fields on a document of two pages, the first selected: two that overlap on
  the first page, one on the second page, one on a page the document does not have.
\<close>

definition exampleFields :: dstate where
  "exampleFields =
     (initialState [(612, 792), (612, 792)])
       \<lparr>heap := (\<lambda>_. blankField)
          (0 := \<lparr>f_type = ''text'', f_name = ''Name'', f_x = 100, f_y = 100, f_width = 150,
                 f_height = 24, f_page = 0, f_required = Some True, f_readonly = Some False,
                 f_fontSize = 12, f_selected = True\<rparr>,
           1 := \<lparr>f_type = ''signature'', f_name = ''Sign'', f_x = 90, f_y = 90, f_width = 200,
                 f_height = 40, f_page = 0, f_required = Some False, f_readonly = Some False,
                 f_fontSize = 12, f_selected = False\<rparr>,
           2 := \<lparr>f_type = ''checkbox'', f_name = ''Agree'', f_x = 100, f_y = 100, f_width = 20,
                 f_height = 20, f_page = 1, f_required = Some False, f_readonly = Some False,
                 f_fontSize = 12, f_selected = False\<rparr>,
           3 := \<lparr>f_type = ''number'', f_name = ''Far'', f_x = 10, f_y = 10, f_width = 150,
                 f_height = 24, f_page = 5, f_required = Some False, f_readonly = Some False,
                 f_fontSize = 12, f_selected = False\<rparr>),
        next_ref := 4, placedFields := [0, 1, 2, 3]\<rparr>"

definition pasteReady :: dstate where
  \<comment> \<open>Ctrl+C on the selected field of page 1, then on to page 2\<close>
  "pasteReady = step NextPage (step (KeyDown KeyC False True) exampleFields)"

text \<open>
  The portfolio design page for file 7, a document of one page: a type is chosen in the
  tools panel and the overlay is clicked once. The listener runs on the overlay
  (\<open>oneTextField\<close>) and then on the container (\<open>twoPortfolioFields\<close>), each call with the
  identifier it makes. \<open>pageWithNotifier\<close> is the same page with a function
  \<open>showNotification\<close> of its own, on which the first call leaves the placing mode.
\<close>

definition placingPortfolio :: "string \<Rightarrow> pstate" where
  "placingPortfolio t = pstep (FieldButton t) (pf_initialState (Some ''7'') 1)"

definition oneTextField :: pstate where
  "oneTextField =
     pstep (OverlayClick (clickAt 100 50) ''field_1700000000000_42'') (placingPortfolio ''text'')"

definition twoPortfolioFields :: pstate where
  "twoPortfolioFields =
     pstep (OverlayClick (clickAt 100 50) ''field_1700000000000_7'') oneTextField"

definition pageWithNotifier :: pstate where
  "pageWithNotifier = (pf_initialState (Some ''7'') 1)\<lparr>notifier := AnotherFunction\<rparr>"

definition savedTextField :: pstate where
  "savedTextField =
     pstep (OverlayClick (clickAt 100 50) ''field_1700000000000_42'')
       (pstep (FieldButton ''text'') pageWithNotifier)"

section \<open>Properties of the fill page\<close>

lemma map_of_assign: "map_of (assign k v m) = (map_of m)(k \<mapsto> v)"
  by (induction m) (auto simp: fun_eq_iff)

lemma map_of_collect_keys:
  "map_of (collect_keys fi ks acc) name =
     (if name \<in> set ks \<and> map_of fi name \<noteq> None
      then map_option collect_input (map_of fi name) else map_of acc name)"
proof (induction ks arbitrary: acc)
  case Nil
  show ?case by simp
next
  case (Cons k ks)
  show ?case
  proof (cases "map_of fi k")
    case None
    then show ?thesis using Cons.IH [of acc] by auto
  next
    case (Some input)
    then show ?thesis
      using Cons.IH [of "assign k (collect_input input) acc"]
      by (auto simp: map_of_assign)
  qed
qed

text \<open>
  C8. \<open>collectFormValues\<close> returns exactly one entry per field input, keyed by the field
  name: the checked state of a checkbox, the data URL of a signature pad, the text value
  of every other input; a name without an input has no entry.
\<close>

theorem collectFormValues_per_input:
  "map_of (collectFormValues fieldInputs) fieldName =
     (case map_of fieldInputs fieldName of
        None \<Rightarrow> None
      | Some (SignatureInput url) \<Rightarrow> Some (StringValue url)
      | Some (InputElement CheckboxInput checked val) \<Rightarrow> Some (BoolValue checked)
      | Some (InputElement DateInput checked val) \<Rightarrow> Some (StringValue val)
      | Some (InputElement TextInput checked val) \<Rightarrow> Some (StringValue val))"
proof (cases "map_of fieldInputs fieldName")
  case None
  then show ?thesis
    by (simp add: collectFormValues_def map_of_collect_keys)
next
  case (Some input)
  then have "fieldName \<in> set (map fst fieldInputs)"
    by (metis map_of_eq_None_iff option.distinct(1) set_map)
  with Some have "map_of (collectFormValues fieldInputs) fieldName = Some (collect_input input)"
    by (simp add: collectFormValues_def map_of_collect_keys)
  then show ?thesis using Some
    by (cases input rule: collect_input.cases) simp_all
qed

section \<open>Hit testing on the design page\<close>

lemma scan_down_find:
  "n \<le> length cur \<Longrightarrow>
   scan_down h px py cur n = find (\<lambda>r. isPointInField px py (h r)) (rev (take n cur))"
  by (induction n) (simp_all add: take_Suc_conv_app_nth)

lemma find_filter:
  "find P (filter Q xs) = find (\<lambda>r. Q r \<and> P r) xs"
  by (induction xs) auto

lemma find_rev_None:
  "find R (rev xs) = None \<longleftrightarrow> (\<forall>i < length xs. \<not> R (xs ! i))"
  by (auto simp: find_None_iff in_set_conv_nth)

lemma find_rev_Some:
  "find R (rev xs) = Some r \<Longrightarrow>
   \<exists>k < length xs. xs ! k = r \<and> R r \<and> (\<forall>j. k < j \<and> j < length xs \<longrightarrow> \<not> R (xs ! j))"
proof (induction xs rule: rev_induct)
  case Nil
  then show ?case by simp
next
  case (snoc x xs)
  show ?case
  proof (cases "R x")
    case True
    with snoc.prems have "r = x" by simp
    with True show ?thesis
      by (intro exI [of _ "length xs"]) auto
  next
    case False
    with snoc.prems have "find R (rev xs) = Some r" by simp
    from snoc.IH [OF this] obtain k where k: "k < length xs" "xs ! k = r" "R r"
      "\<forall>j. k < j \<and> j < length xs \<longrightarrow> \<not> R (xs ! j)" by blast
    have "\<forall>j. k < j \<and> j < length (xs @ [x]) \<longrightarrow> \<not> R ((xs @ [x]) ! j)"
    proof (intro allI impI)
      fix j assume j: "k < j \<and> j < length (xs @ [x])"
      show "\<not> R ((xs @ [x]) ! j)"
      proof (cases "j < length xs")
        case True
        with k(4) j show ?thesis by (simp add: nth_append)
      next
        case False
        with j have "j = length xs" by simp
        with \<open>\<not> R x\<close> show ?thesis by simp
      qed
    qed
    with k show ?thesis
      by (intro exI [of _ k]) (auto simp: nth_append)
  qed
qed

lemma findIndex_ge: "findIndex P xs \<ge> - 1"
  by (induction xs) (auto simp: Let_def)

lemma findIndex_distinct:
  "distinct xs \<Longrightarrow> k < length xs \<Longrightarrow> findIndex (\<lambda>f. f = xs ! k) xs = int k"
proof (induction xs arbitrary: k)
  case Nil
  then show ?case by simp
next
  case (Cons a xs)
  show ?case
  proof (cases k)
    case 0
    then show ?thesis by simp
  next
    case (Suc k')
    with Cons.prems have k': "k' < length xs" and d: "distinct xs" and na: "a \<noteq> xs ! k'"
      by auto
    from Cons.IH [OF d k'] have "findIndex (\<lambda>f. f = xs ! k') xs = int k'" .
    with Suc na show ?thesis by (auto simp: Let_def)
  qed
qed

lemma getFieldAtPosition_find:
  "getFieldAtPosition s px py =
     (case find (\<lambda>r. f_page (heap s r) = pageNum s - 1 \<and> isPointInField px py (heap s r))
             (rev (placedFields s)) of
        None \<Rightarrow> - 1
      | Some fld \<Rightarrow> findIndex (\<lambda>f. f = fld) (placedFields s))"
  by (simp add: getFieldAtPosition_def scan_down_find rev_filter find_filter)

text \<open>
  C4. Overlapping fields are resolved by z-order: when the placed fields are pairwise
  different objects, \<open>getFieldAtPosition\<close> returns the index of the last field of
  \<open>placedFields\<close> that is on the current page and contains the point, and \<open>-1\<close> when
  no field of the current page contains it.
\<close>

theorem getFieldAtPosition_topmost:
  assumes "distinct (placedFields s)"
  shows "(hit s px py i \<and> (\<forall>j > i. \<not> hit s px py j) \<longrightarrow> getFieldAtPosition s px py = int i) \<and>
         ((\<forall>j. \<not> hit s px py j) \<longrightarrow> getFieldAtPosition s px py = - 1)"
proof (intro conjI impI)
  let ?R = "\<lambda>r. f_page (heap s r) = pageNum s - 1 \<and> isPointInField px py (heap s r)"
  let ?pf = "placedFields s"
  {
    assume h: "hit s px py i \<and> (\<forall>j > i. \<not> hit s px py j)"
    then have i: "i < length ?pf" "?R (?pf ! i)" by (auto simp: hit_def)
    then have "find ?R (rev ?pf) \<noteq> None"
      by (auto simp: find_rev_None)
    then obtain r where r: "find ?R (rev ?pf) = Some r" by blast
    from find_rev_Some [OF r] obtain k where k: "k < length ?pf" "?pf ! k = r" "?R r"
      "\<forall>j. k < j \<and> j < length ?pf \<longrightarrow> \<not> ?R (?pf ! j)" by blast
    have "hit s px py k" using k by (simp add: hit_def)
    with h have "\<not> i < k" by blast
    moreover have "\<not> k < i" using k(4) i by blast
    ultimately have "k = i" by simp
    from findIndex_distinct [OF assms k(1)] k(2) have "findIndex (\<lambda>f. f = r) ?pf = int k"
      by simp
    with r \<open>k = i\<close> show "getFieldAtPosition s px py = int i"
      by (simp add: getFieldAtPosition_find)
  }
  {
    assume "\<forall>j. \<not> hit s px py j"
    then have "find ?R (rev ?pf) = None"
      by (auto simp: find_rev_None hit_def)
    then show "getFieldAtPosition s px py = - 1"
      by (simp add: getFieldAtPosition_find)
  }
qed

section \<open>What the handlers of the design page leave unchanged\<close>

lemma renderPage_frame [simp]:
  "heap (renderPage n s) = heap s"
  "next_ref (renderPage n s) = next_ref s"
  "placedFields (renderPage n s) = placedFields s"
  "currentFieldType (renderPage n s) = currentFieldType s"
  "copiedField (renderPage n s) = copiedField s"
  "pdfDoc (renderPage n s) = pdfDoc s"
  "pageNum (renderPage n s) = (if pdfDoc s = None then pageNum s else n)"
  by (simp_all add: renderPage_def split: option.splits)

lemma updateFieldPropertiesPanel_frame [simp]:
  "heap (updateFieldPropertiesPanel i s) = heap s"
  "next_ref (updateFieldPropertiesPanel i s) = next_ref s"
  "placedFields (updateFieldPropertiesPanel i s) = placedFields s"
  "currentFieldType (updateFieldPropertiesPanel i s) = currentFieldType s"
  "copiedField (updateFieldPropertiesPanel i s) = copiedField s"
  "pageNum (updateFieldPropertiesPanel i s) = pageNum s"
  "pdfDoc (updateFieldPropertiesPanel i s) = pdfDoc s"
  by (simp_all add: updateFieldPropertiesPanel_def Let_def)

lemma clearFieldPropertiesPanel_frame [simp]:
  "heap (clearFieldPropertiesPanel s) = heap s"
  "next_ref (clearFieldPropertiesPanel s) = next_ref s"
  "placedFields (clearFieldPropertiesPanel s) = placedFields s"
  "currentFieldType (clearFieldPropertiesPanel s) = currentFieldType s"
  "copiedField (clearFieldPropertiesPanel s) = copiedField s"
  "pageNum (clearFieldPropertiesPanel s) = pageNum s"
  "pdfDoc (clearFieldPropertiesPanel s) = pdfDoc s"
  by (simp_all add: clearFieldPropertiesPanel_def)

lemma forEach_selected_cell:
  "\<exists>b. forEach_selected P i rs h r = (h r)\<lparr>f_selected := b\<rparr>"
proof (induction rs arbitrary: i h)
  case Nil
  show ?case by (rule exI [of _ "f_selected (h r)"]) simp
next
  case (Cons a rs)
  from Cons.IH [of "Suc i" "h(a := (h a)\<lparr>f_selected := P i\<rparr>)"]
  obtain b where "forEach_selected P (Suc i) rs (h(a := (h a)\<lparr>f_selected := P i\<rparr>)) r =
      ((h(a := (h a)\<lparr>f_selected := P i\<rparr>)) r)\<lparr>f_selected := b\<rparr>" by blast
  then show ?case by (intro exI [of _ b]) simp
qed

lemma setSelected_frame [simp]:
  "next_ref (setSelected P s) = next_ref s"
  "placedFields (setSelected P s) = placedFields s"
  "currentFieldType (setSelected P s) = currentFieldType s"
  "copiedField (setSelected P s) = copiedField s"
  "pageNum (setSelected P s) = pageNum s"
  "pdfDoc (setSelected P s) = pdfDoc s"
  "f_page (heap (setSelected P s) r) = f_page (heap s r)"
  "f_type (heap (setSelected P s) r) = f_type (heap s r)"
  "f_x (heap (setSelected P s) r) = f_x (heap s r)"
  "f_y (heap (setSelected P s) r) = f_y (heap s r)"
  "f_width (heap (setSelected P s) r) = f_width (heap s r)"
  "f_height (heap (setSelected P s) r) = f_height (heap s r)"
  "f_name (heap (setSelected P s) r) = f_name (heap s r)"
  using forEach_selected_cell [of P 0 "placedFields s" "heap s" r]
  by (auto simp: setSelected_def)

lemma alloc_frame [simp]:
  "next_ref (alloc fld s) = Suc (next_ref s)"
  "placedFields (alloc fld s) = placedFields s @ [next_ref s]"
  "currentFieldType (alloc fld s) = currentFieldType s"
  "copiedField (alloc fld s) = copiedField s"
  "pageNum (alloc fld s) = pageNum s"
  "pdfDoc (alloc fld s) = pdfDoc s"
  "heap (alloc fld s) r = (if r = next_ref s then fld else heap s r)"
  by (simp_all add: alloc_def)

lemma selectField_frame [simp]:
  "next_ref (selectField i s) = next_ref s"
  "placedFields (selectField i s) = placedFields s"
  "currentFieldType (selectField i s) = currentFieldType s"
  "copiedField (selectField i s) = copiedField s"
  "f_page (heap (selectField i s) r) = f_page (heap s r)"
  "f_type (heap (selectField i s) r) = f_type (heap s r)"
  by (simp_all add: selectField_def Let_def)

lemma resizeField_keeps [simp]:
  "f_page (resizeField s dx dy fld) = f_page fld"
  "f_type (resizeField s dx dy fld) = f_type fld"
  by (simp_all add: resizeField_def Let_def)

lemma canvasClick_keeps:
  "r \<noteq> next_ref s \<Longrightarrow>
   f_page (heap (canvasClick e answer s) r) = f_page (heap s r) \<and>
   f_type (heap (canvasClick e answer s) r) = f_type (heap s r)"
  by (simp add: canvasClick_def Let_def split: option.splits)

lemma canvasMouseDown_keeps:
  "f_page (heap (canvasMouseDown e s) r) = f_page (heap s r) \<and>
   f_type (heap (canvasMouseDown e s) r) = f_type (heap s r)"
  by (simp add: canvasMouseDown_def Let_def)

lemma canvasMouseMove_keeps:
  "f_page (heap (canvasMouseMove e s) r) = f_page (heap s r) \<and>
   f_type (heap (canvasMouseMove e s) r) = f_type (heap s r)"
  by (simp add: canvasMouseMove_def Let_def)

lemma moveSelected_keeps:
  "(\<And>fld. f_page (upd fld) = f_page fld \<and> f_type (upd fld) = f_type fld) \<Longrightarrow>
   f_page (heap (moveSelected i upd s) r) = f_page (heap s r) \<and>
   f_type (heap (moveSelected i upd s) r) = f_type (heap s r)"
  by (simp add: moveSelected_def Let_def)

lemma keydown_keeps:
  "r \<noteq> next_ref s \<Longrightarrow>
   f_page (heap (keydown k shift ctrl s) r) = f_page (heap s r) \<and>
   f_type (heap (keydown k shift ctrl s) r) = f_type (heap s r)"
  by (cases k) (simp_all add: keydown_def Let_def moveSelected_keeps split: option.splits)

lemma panel_keeps:
  "f_page (heap (nameInput v s) r) = f_page (heap s r) \<and>
   f_type (heap (nameInput v s) r) = f_type (heap s r)"
  "f_page (heap (requiredChange b s) r) = f_page (heap s r) \<and>
   f_type (heap (requiredChange b s) r) = f_type (heap s r)"
  "f_page (heap (readonlyChange b s) r) = f_page (heap s r) \<and>
   f_type (heap (readonlyChange b s) r) = f_type (heap s r)"
  by (simp_all add: nameInput_def requiredChange_def readonlyChange_def Let_def split: option.splits)

lemma nav_keeps:
  "heap (prevPage s) = heap s" "heap (nextPage s) = heap s" "heap (pageInput n s) = heap s"
  "heap (canvasMouseUp s) = heap s" "heap (selectFieldType t s) = heap s"
  by (simp_all add: prevPage_def nextPage_def pageInput_def canvasMouseUp_def selectFieldType_def
      split: option.splits)

lemma step_keeps:
  "r \<noteq> next_ref s \<Longrightarrow>
   f_page (heap (step e s) r) = f_page (heap s r) \<and>
   f_type (heap (step e s) r) = f_type (heap s r)"
  by (cases e) (simp_all add: canvasClick_keeps canvasMouseDown_keeps canvasMouseMove_keeps
      keydown_keeps panel_keeps nav_keeps)

lemma splice1_subset: "set (splice1 i xs) \<subseteq> set xs"
  by (auto simp: splice1_def dest: in_set_takeD in_set_dropD)

lemma splice1_distinct: "distinct xs \<Longrightarrow> distinct (splice1 i xs)"
proof -
  assume d: "distinct xs"
  have "set (take (nat i) xs) \<inter> set (drop (Suc (nat i)) xs) = {}"
    using d set_take_disj_set_drop_if_distinct [of xs "nat i" "Suc (nat i)"] by simp
  with d show ?thesis by (simp add: splice1_def)
qed

lemma canvasClick_shape:
  "(placedFields (canvasClick e a s) = placedFields s \<and> next_ref (canvasClick e a s) = next_ref s \<and>
    copiedField (canvasClick e a s) = copiedField s \<and>
    currentFieldType (canvasClick e a s) = currentFieldType s) \<or>
   (placedFields (canvasClick e a s) = placedFields s @ [next_ref s] \<and>
    next_ref (canvasClick e a s) = Suc (next_ref s) \<and>
    copiedField (canvasClick e a s) = copiedField s \<and>
    (currentFieldType (canvasClick e a s) = None \<or>
     currentFieldType (canvasClick e a s) = currentFieldType s) \<and>
    f_page (heap (canvasClick e a s) (next_ref s)) = pageNum s - 1 \<and>
    Some (f_type (heap (canvasClick e a s) (next_ref s))) = currentFieldType s \<and>
    f_x (heap (canvasClick e a s) (next_ref s)) = canvasX s e \<and>
    f_y (heap (canvasClick e a s) (next_ref s)) = canvasY s e)"
  by (simp add: canvasClick_def Let_def split: option.splits)

lemma keydown_shape:
  "(placedFields (keydown k sh c s) = placedFields s \<and> next_ref (keydown k sh c s) = next_ref s \<and>
    currentFieldType (keydown k sh c s) = currentFieldType s \<and>
    (copiedField (keydown k sh c s) = copiedField s \<or>
     (\<exists>i < length (placedFields s). copiedField (keydown k sh c s) = Some (heap s (placedFields s ! i))))) \<or>
   (\<exists>i. placedFields (keydown k sh c s) = splice1 i (placedFields s) \<and>
    next_ref (keydown k sh c s) = next_ref s \<and>
    currentFieldType (keydown k sh c s) = currentFieldType s \<and>
    copiedField (keydown k sh c s) = copiedField s) \<or>
   (placedFields (keydown k sh c s) = placedFields s @ [next_ref s] \<and>
    next_ref (keydown k sh c s) = Suc (next_ref s) \<and>
    currentFieldType (keydown k sh c s) = currentFieldType s \<and>
    copiedField (keydown k sh c s) = copiedField s \<and>
    f_page (heap (keydown k sh c s) (next_ref s)) = pageNum s - 1 \<and>
    (\<exists>fld. copiedField s = Some fld \<and> f_type (heap (keydown k sh c s) (next_ref s)) = f_type fld))"
proof (cases k)
  case KeyC
  then show ?thesis
    by (simp add: keydown_def Let_def) (metis nat_less_iff nat_int)
next
  case Delete
  then show ?thesis by (auto simp: keydown_def Let_def)
next
  case Backspace
  then show ?thesis by (auto simp: keydown_def Let_def)
qed (simp_all add: keydown_def Let_def moveSelected_def split: option.splits)

lemma other_shape:
  "placedFields (canvasMouseDown e s) = placedFields s"
  "next_ref (canvasMouseDown e s) = next_ref s"
  "currentFieldType (canvasMouseDown e s) = currentFieldType s"
  "copiedField (canvasMouseDown e s) = copiedField s"
  "placedFields (canvasMouseMove e s) = placedFields s"
  "next_ref (canvasMouseMove e s) = next_ref s"
  "currentFieldType (canvasMouseMove e s) = currentFieldType s"
  "copiedField (canvasMouseMove e s) = copiedField s"
  by (simp_all add: canvasMouseDown_def canvasMouseMove_def Let_def)

lemma panel_shape:
  "placedFields (nameInput v s) = placedFields s"
  "next_ref (nameInput v s) = next_ref s"
  "currentFieldType (nameInput v s) = currentFieldType s"
  "copiedField (nameInput v s) = copiedField s"
  "placedFields (requiredChange b s) = placedFields s"
  "next_ref (requiredChange b s) = next_ref s"
  "currentFieldType (requiredChange b s) = currentFieldType s"
  "copiedField (requiredChange b s) = copiedField s"
  "placedFields (readonlyChange b s) = placedFields s"
  "next_ref (readonlyChange b s) = next_ref s"
  "currentFieldType (readonlyChange b s) = currentFieldType s"
  "copiedField (readonlyChange b s) = copiedField s"
  by (simp_all add: nameInput_def requiredChange_def readonlyChange_def Let_def split: option.splits)

lemma nav_shape:
  "placedFields (prevPage s) = placedFields s" "next_ref (prevPage s) = next_ref s"
  "currentFieldType (prevPage s) = currentFieldType s" "copiedField (prevPage s) = copiedField s"
  "placedFields (nextPage s) = placedFields s" "next_ref (nextPage s) = next_ref s"
  "currentFieldType (nextPage s) = currentFieldType s" "copiedField (nextPage s) = copiedField s"
  "placedFields (pageInput n s) = placedFields s" "next_ref (pageInput n s) = next_ref s"
  "currentFieldType (pageInput n s) = currentFieldType s" "copiedField (pageInput n s) = copiedField s"
  "placedFields (canvasMouseUp s) = placedFields s" "next_ref (canvasMouseUp s) = next_ref s"
  "currentFieldType (canvasMouseUp s) = currentFieldType s" "copiedField (canvasMouseUp s) = copiedField s"
  "placedFields (selectFieldType t s) = placedFields s" "next_ref (selectFieldType t s) = next_ref s"
  "currentFieldType (selectFieldType t s) = Some t" "copiedField (selectFieldType t s) = copiedField s"
  by (simp_all add: prevPage_def nextPage_def pageInput_def canvasMouseUp_def selectFieldType_def
      split: option.splits)

lemma step_shape:
  "(placedFields (step e s) = placedFields s \<and> next_ref (step e s) = next_ref s) \<or>
   (\<exists>i. placedFields (step e s) = splice1 i (placedFields s) \<and> next_ref (step e s) = next_ref s) \<or>
   (placedFields (step e s) = placedFields s @ [next_ref s] \<and>
    next_ref (step e s) = Suc (next_ref s) \<and>
    f_page (heap (step e s) (next_ref s)) = pageNum s - 1)"
proof (cases e)
  case (Click m a)
  then show ?thesis using canvasClick_shape [of m a s] by auto
next
  case (KeyDown k sh c)
  then show ?thesis using keydown_shape [of k sh c s] by auto
qed (simp_all add: other_shape panel_shape nav_shape)

lemma step_wellFormed: "wellFormed s \<Longrightarrow> wellFormed (step e s)"
  using step_shape [of e s] splice1_subset splice1_distinct
  by (fastforce simp: wellFormed_def)

lemma button_type_toolbar: "button_type b \<in> set toolbarTypes"
  by (cases b) (simp_all add: toolbarTypes_def)

lemma step_toolbarTyped:
  assumes "wellFormed s" "toolbarTyped s"
  shows "toolbarTyped (step e s)"
proof -
  have old: "\<And>r. r \<in> set (placedFields s) \<Longrightarrow> f_type (heap (step e s) r) \<in> set toolbarTypes"
    using assms step_keeps [of _ s e] by (fastforce simp: wellFormed_def toolbarTyped_def)
  show ?thesis
  proof (cases e)
    case (Click m a)
    with canvasClick_shape [of m a s] old assms(2) show ?thesis
      by (auto simp: toolbarTyped_def)
  next
    case (KeyDown k sh c)
    with keydown_shape [of k sh c s] old assms(2) splice1_subset show ?thesis
      by (fastforce simp: toolbarTyped_def)
  next
    case (Toolbar b)
    with old assms(2) button_type_toolbar show ?thesis
      by (auto simp: toolbarTyped_def nav_shape)
  qed (use old assms(2) in \<open>auto simp: toolbarTyped_def other_shape panel_shape nav_shape\<close>)
qed

lemma initial_invariants: "wellFormed (initialState ps)" "toolbarTyped (initialState ps)"
  by (simp_all add: wellFormed_def toolbarTyped_def initialState_def)

lemma placingText_simps:
  "placedFields placingText = []" "currentFieldType placingText = Some ''text''"
  "canvasWidth placingText = 734" "canvasHeight placingText = 950"
  "pageNum placingText = 1" "isDragging placingText = False" "isResizing placingText = False"
  "fieldNameInput placingText = Some []" "next_ref placingText = 0"
  "pdfDoc placingText = Some [(612, 792)]"
  by (simp_all add: placingText_def initialState_def renderPage_def selectFieldType_def scale_def
      toCanvasSize_def)

section \<open>The handlers of the portfolio design page\<close>

lemma pf_updateFieldPropertiesPanel_frame [simp]:
  "pheap (pf_updateFieldPropertiesPanel s) = pheap s"
  "pnext (pf_updateFieldPropertiesPanel s) = pnext s"
  "formFields (pf_updateFieldPropertiesPanel s) = formFields s"
  "activeField (pf_updateFieldPropertiesPanel s) = activeField s"
  "currentScale (pf_updateFieldPropertiesPanel s) = currentScale s"
  "currentPage (pf_updateFieldPropertiesPanel s) = currentPage s"
  "fileId (pf_updateFieldPropertiesPanel s) = fileId s"
  "notifier (pf_updateFieldPropertiesPanel s) = notifier s"
  "fieldTypeToAdd (pf_updateFieldPropertiesPanel s) = fieldTypeToAdd s"
  "isPlacingField (pf_updateFieldPropertiesPanel s) = isPlacingField s"
  by (simp_all add: pf_updateFieldPropertiesPanel_def split: option.splits)

lemma pf_selectField_frame [simp]:
  "pheap (pf_selectField i s) = pheap s"
  "pnext (pf_selectField i s) = pnext s"
  "formFields (pf_selectField i s) = formFields s"
  "currentScale (pf_selectField i s) = currentScale s"
  "currentPage (pf_selectField i s) = currentPage s"
  "fieldTypeToAdd (pf_selectField i s) = fieldTypeToAdd s"
  by (simp_all add: pf_selectField_def split: option.splits)

lemma addFormField_frame [simp]:
  "pnext (fst (addFormField fid t px py pg s)) = Suc (pnext s)"
  "formFields (fst (addFormField fid t px py pg s)) = formFields s @ [pnext s]"
  "currentScale (fst (addFormField fid t px py pg s)) = currentScale s"
  "currentPage (fst (addFormField fid t px py pg s)) = currentPage s"
  "activeField (fst (addFormField fid t px py pg s)) = Some (pnext s)"
  "fieldTypeToAdd (fst (addFormField fid t px py pg s)) = fieldTypeToAdd s"
  "isPlacingField (fst (addFormField fid t px py pg s)) = isPlacingField s"
  "notifier (fst (addFormField fid t px py pg s)) = notifier s"
  "r \<noteq> pnext s \<Longrightarrow> pheap (fst (addFormField fid t px py pg s)) r = pheap s r"
  "p_x (pheap (fst (addFormField fid t px py pg s)) (pnext s)) = px"
  "p_y (pheap (fst (addFormField fid t px py pg s)) (pnext s)) = py"
  "p_page (pheap (fst (addFormField fid t px py pg s)) (pnext s)) = pg"
  "p_type (pheap (fst (addFormField fid t px py pg s)) (pnext s)) = t"
  "p_id (pheap (fst (addFormField fid t px py pg s)) (pnext s)) = Some fid"
  by (simp_all add: addFormField_def Let_def split: option.splits)

lemma addFormField_throws [simp]:
  "snd (addFormField fid t px py pg s) = showNotification s"
  by (simp add: addFormField_def Let_def showNotification_def split: option.splits notifier.splits)

lemma handleOverlayClick_places:
  assumes "isPlacingField s" "fieldTypeToAdd s = Some t" "t \<noteq> []"
  shows "handleOverlayClick e fid s =
           (let added = fst (addFormField fid t ((clientX e - rect_left e) / currentScale s)
                               ((clientY e - rect_top e) / currentScale s) (currentPage s) s)
            in if showNotification s = None
               then added\<lparr>fieldTypeToAdd := None, isPlacingField := False\<rparr> else added)"
  using assms by (auto simp: handleOverlayClick_def Let_def split: option.splits)

lemma handleOverlayClick_placed:
  assumes "isPlacingField s" "fieldTypeToAdd s = Some t" "t \<noteq> []"
  shows "formFields (handleOverlayClick e fid s) = formFields s @ [pnext s]"
    and "pnext (handleOverlayClick e fid s) = Suc (pnext s)"
    and "activeField (handleOverlayClick e fid s) = Some (pnext s)"
    and "currentScale (handleOverlayClick e fid s) = currentScale s"
    and "currentPage (handleOverlayClick e fid s) = currentPage s"
    and "\<forall>r. r \<noteq> pnext s \<longrightarrow> pheap (handleOverlayClick e fid s) r = pheap s r"
    and "p_x (pheap (handleOverlayClick e fid s) (pnext s)) = (clientX e - rect_left e) / currentScale s"
    and "p_y (pheap (handleOverlayClick e fid s) (pnext s)) = (clientY e - rect_top e) / currentScale s"
    and "p_page (pheap (handleOverlayClick e fid s) (pnext s)) = currentPage s"
    and "p_type (pheap (handleOverlayClick e fid s) (pnext s)) = t"
    and "p_id (pheap (handleOverlayClick e fid s) (pnext s)) = Some fid"
    and "fieldTypeToAdd (handleOverlayClick e fid s) = None \<or>
         fieldTypeToAdd (handleOverlayClick e fid s) = fieldTypeToAdd s"
  by (simp_all add: handleOverlayClick_places [OF assms] Let_def)

lemma handleOverlayClick_idle:
  "\<not> (isPlacingField s \<and> truthy (fieldTypeToAdd s)) \<Longrightarrow> handleOverlayClick e fid s = s"
  by (auto simp: handleOverlayClick_def truthy_def split: option.splits)

lemma canvasClick_idle:
  "\<not> truthy (currentFieldType s) \<Longrightarrow> canvasClick e answer s = s"
  by (auto simp: canvasClick_def truthy_def split: option.splits)

lemma load_objects_frame:
  "pnext s \<le> pnext (load_objects flds s) \<and>
   (\<forall>r < pnext s. pheap (load_objects flds s) r = pheap s r)"
proof (induction flds arbitrary: s)
  case Nil
  show ?case by simp
next
  case (Cons fld flds)
  let ?s1 = "s\<lparr>pheap := (pheap s)(pnext s := fld), formFields := formFields s @ [pnext s],
          pnext := Suc (pnext s)\<rparr>"
  from Cons.IH [of ?s1] show ?case by auto
qed

lemma load_objects_fields:
  "pnext (load_objects flds s) = pnext s + length flds \<and>
   formFields (load_objects flds s) = formFields s @ [pnext s ..< pnext s + length flds] \<and>
   fieldTypeToAdd (load_objects flds s) = fieldTypeToAdd s \<and>
   activeField (load_objects flds s) = activeField s \<and>
   (\<forall>i < length flds. pheap (load_objects flds s) (pnext s + i) = flds ! i)"
proof (induction flds arbitrary: s)
  case Nil
  show ?case by simp
next
  case (Cons fld flds)
  let ?s1 = "s\<lparr>pheap := (pheap s)(pnext s := fld), formFields := formFields s @ [pnext s],
          pnext := Suc (pnext s)\<rparr>"
  have ih: "pnext (load_objects flds ?s1) = Suc (pnext s) + length flds"
    "formFields (load_objects flds ?s1) =
       (formFields s @ [pnext s]) @ [Suc (pnext s) ..< Suc (pnext s) + length flds]"
    "fieldTypeToAdd (load_objects flds ?s1) = fieldTypeToAdd s"
    "activeField (load_objects flds ?s1) = activeField s"
    "\<forall>i < length flds. pheap (load_objects flds ?s1) (Suc (pnext s) + i) = flds ! i"
    using Cons.IH [of ?s1] by simp_all
  have first: "pheap (load_objects flds ?s1) (pnext s) = fld"
    using load_objects_frame [of ?s1 flds] by simp
  have upt: "[pnext s ..< pnext s + length (fld # flds)] =
      pnext s # [Suc (pnext s) ..< Suc (pnext s) + length flds]"
    by (subst upt_rec) simp
  have cells: "\<forall>i < length (fld # flds).
      pheap (load_objects (fld # flds) s) (pnext s + i) = (fld # flds) ! i"
  proof (intro allI impI)
    fix i assume i: "i < length (fld # flds)"
    show "pheap (load_objects (fld # flds) s) (pnext s + i) = (fld # flds) ! i"
    proof (cases i)
      case 0
      with first show ?thesis by simp
    next
      case (Suc j)
      with i ih(5) show ?thesis by simp
    qed
  qed
  from ih(1-4) cells show ?case by (simp only: upt load_objects.simps) simp
qed

lemma pstep_keeps:
  "r < pnext s \<Longrightarrow>
   p_page (pheap (pstep e s) r) = p_page (pheap s r) \<and>
   p_type (pheap (pstep e s) r) = p_type (pheap s r)"
proof (cases e)
  case (OverlayClick m fid)
  assume "r < pnext s"
  then show ?thesis using OverlayClick
    by (auto simp: handleOverlayClick_def Let_def split: option.splits)
next
  case (SchemaLoaded flds)
  assume "r < pnext s"
  then show ?thesis using SchemaLoaded load_objects_frame [of "s\<lparr>formFields := []\<rparr>" flds]
    by (auto simp: loadFormFields_def split: option.splits)
qed (auto simp: pf_selectFieldType_def handleOverlayMouseDown_def deselectField_def
      handleOverlayMouseMove_def handleOverlayMouseUp_def updateSelectedField_def
      deleteSelectedField_def Let_def split: option.splits)

lemma splice1_Cons: "0 \<le> i \<Longrightarrow> splice1 (i + 1) (a # xs) = a # splice1 i xs"
  by (simp add: splice1_def nat_add_distrib)

lemma splice_first_match:
  "(if findIndex P xs \<noteq> - 1 then splice1 (findIndex P xs) xs else xs) =
     takeWhile (\<lambda>x. \<not> P x) xs @ tl (dropWhile (\<lambda>x. \<not> P x) xs)"
proof (induction xs)
  case Nil
  show ?case by (simp add: splice1_def)
next
  case (Cons a xs)
  show ?case
  proof (cases "P a")
    case True
    then show ?thesis by (simp add: splice1_def)
  next
    case False
    show ?thesis
    proof (cases "findIndex P xs = - 1")
      case True
      with False Cons.IH show ?thesis by simp
    next
      case neq: False
      with findIndex_ge [of P xs] have "0 \<le> findIndex P xs" by linarith
      with False neq Cons.IH show ?thesis
        by (simp add: Let_def splice1_Cons)
    qed
  qed
qed

lemma remove_unique_match:
  "distinct (map key xs) \<Longrightarrow>
   takeWhile (\<lambda>x. key x \<noteq> v) xs @ tl (dropWhile (\<lambda>x. key x \<noteq> v) xs) =
     filter (\<lambda>x. key x \<noteq> v) xs"
proof (induction xs)
  case Nil
  show ?case by simp
next
  case (Cons a xs)
  show ?case
  proof (cases "key a = v")
    case True
    with Cons.prems have "\<forall>x \<in> set xs. key x \<noteq> v" by (auto simp: image_iff)
    then have "filter (\<lambda>x. key x \<noteq> v) xs = xs" by (simp add: filter_id_conv)
    with True show ?thesis by simp
  next
    case False
    with Cons show ?thesis by simp
  qed
qed

text \<open>
  C10. \<open>deleteSelectedField\<close> changes no field object and removes from \<open>formFields\<close> the
  first field whose id is the active field's id, keeping the others in order; when ids
  are pairwise different that is exactly the fields with another id. Without an active
  field nothing changes.
\<close>

theorem deleteSelectedField_removes_only_active:
  "(activeField s = None \<longrightarrow> deleteSelectedField s = s) \<and>
   pheap (deleteSelectedField s) = pheap s \<and>
   (\<forall>a. activeField s = Some a \<longrightarrow>
      formFields (deleteSelectedField s) =
        takeWhile (\<lambda>r. p_id (pheap s r) \<noteq> p_id (pheap s a)) (formFields s) @
        tl (dropWhile (\<lambda>r. p_id (pheap s r) \<noteq> p_id (pheap s a)) (formFields s)) \<and>
      (distinct (map (\<lambda>r. p_id (pheap s r)) (formFields s)) \<longrightarrow>
         formFields (deleteSelectedField s) =
           filter (\<lambda>r. p_id (pheap s r) \<noteq> p_id (pheap s a)) (formFields s)))"
proof (intro conjI allI impI)
  show "activeField s = None \<Longrightarrow> deleteSelectedField s = s"
    by (simp add: deleteSelectedField_def)
  show "pheap (deleteSelectedField s) = pheap s"
    by (simp add: deleteSelectedField_def deselectField_def Let_def split: option.splits)
  fix a assume a: "activeField s = Some a"
  let ?P = "\<lambda>r. p_id (pheap s r) = p_id (pheap s a)"
  have "formFields (deleteSelectedField s) =
      (if findIndex ?P (formFields s) \<noteq> - 1
       then splice1 (findIndex ?P (formFields s)) (formFields s) else formFields s)"
    using a by (simp add: deleteSelectedField_def deselectField_def Let_def)
  then show first: "formFields (deleteSelectedField s) =
        takeWhile (\<lambda>r. p_id (pheap s r) \<noteq> p_id (pheap s a)) (formFields s) @
        tl (dropWhile (\<lambda>r. p_id (pheap s r) \<noteq> p_id (pheap s a)) (formFields s))"
    by (simp only: splice_first_match [of ?P])
  assume "distinct (map (\<lambda>r. p_id (pheap s r)) (formFields s))"
  from remove_unique_match [OF this, of "p_id (pheap s a)"] first
  show "formFields (deleteSelectedField s) =
      filter (\<lambda>r. p_id (pheap s r) \<noteq> p_id (pheap s a)) (formFields s)"
    by simp
qed

section \<open>The fields a save adds to the pages\<close>
















section \<open>Examples evaluated\<close>

lemma exampleFields_simps:
  "placedFields exampleFields = [0, 1, 2, 3]" "pageNum exampleFields = 1"
  "next_ref exampleFields = 4"
  "heap exampleFields 0 = \<lparr>f_type = ''text'', f_name = ''Name'', f_x = 100, f_y = 100, f_width = 150,
                 f_height = 24, f_page = 0, f_required = Some True, f_readonly = Some False,
                 f_fontSize = 12, f_selected = True\<rparr>"
  "heap exampleFields (Suc 0) = \<lparr>f_type = ''signature'', f_name = ''Sign'', f_x = 90, f_y = 90, f_width = 200,
                 f_height = 40, f_page = 0, f_required = Some False, f_readonly = Some False,
                 f_fontSize = 12, f_selected = False\<rparr>"
  "heap exampleFields 2 = \<lparr>f_type = ''checkbox'', f_name = ''Agree'', f_x = 100, f_y = 100, f_width = 20,
                 f_height = 20, f_page = 1, f_required = Some False, f_readonly = Some False,
                 f_fontSize = 12, f_selected = False\<rparr>"
  "heap exampleFields 3 = \<lparr>f_type = ''number'', f_name = ''Far'', f_x = 10, f_y = 10, f_width = 150,
                 f_height = 24, f_page = 5, f_required = Some False, f_readonly = Some False,
                 f_fontSize = 12, f_selected = False\<rparr>"
  "pdfDoc exampleFields = Some [(612, 792), (612, 792)]"
  "copiedField exampleFields = None"
  by (simp_all add: exampleFields_def initialState_def renderPage_def)

text \<open>
  On the example page the point (120, 110) lies in the text field and in the signature
  field placed after it, and in the checkbox of the other page: the signature field,
  index 1, is returned. No field contains the origin.
\<close>

theorem getFieldAtPosition_topmost_witness:
  "distinct (placedFields exampleFields) \<and>
   hit exampleFields 120 110 0 \<and> hit exampleFields 120 110 1 \<and>
   \<not> hit exampleFields 120 110 2 \<and> \<not> hit exampleFields 120 110 3 \<and>
   getFieldAtPosition exampleFields 120 110 = 1 \<and>
   (\<forall>j. \<not> hit exampleFields 0 0 j) \<and> getFieldAtPosition exampleFields 0 0 = - 1"
proof -
  have d: "distinct (placedFields exampleFields)"
    by (simp add: exampleFields_simps)
  have nth: "\<And>j::nat. j < 4 \<Longrightarrow> j = 0 \<or> j = 1 \<or> j = 2 \<or> j = 3" by arith
  have h1: "hit exampleFields 120 110 1"
    by (simp add: hit_def exampleFields_simps isPointInField_def)
  have h2: "\<forall>j > 1. \<not> hit exampleFields 120 110 j"
  proof (intro allI impI notI)
    fix j :: nat assume "1 < j" and "hit exampleFields 120 110 j"
    then have "j = 2 \<or> j = 3" and "f_page (heap exampleFields ([0, 1, 2, 3] ! j)) = 0"
      using nth [of j] by (auto simp: hit_def exampleFields_simps)
    then show False by (auto simp: exampleFields_simps)
  qed
  have h3: "\<forall>j. \<not> hit exampleFields 0 0 j"
  proof (intro allI notI)
    fix j assume "hit exampleFields 0 0 j"
    then have "j < 4" and "isPointInField 0 0 (heap exampleFields ([0, 1, 2, 3] ! j))"
      by (auto simp: hit_def exampleFields_simps)
    with nth [of j] show False
      by (auto simp: exampleFields_simps isPointInField_def)
  qed
  from getFieldAtPosition_topmost [OF d, of 120 110 1] h1 h2
  have "getFieldAtPosition exampleFields 120 110 = 1" by simp
  moreover from getFieldAtPosition_topmost [OF d, of 0 0 0] h3
  have "getFieldAtPosition exampleFields 0 0 = - 1" by simp
  moreover have "hit exampleFields 120 110 0"
    by (simp add: hit_def exampleFields_simps isPointInField_def)
  ultimately show ?thesis using d h1 h2 h3 by simp
qed

section \<open>Saving the PDF from the design page\<close>



lemma addField_checkbox_only:
  "addField pageHeight k fld = None \<longleftrightarrow> f_type fld \<noteq> ''checkbox''"
  by (simp add: addField_def tryAddField_def setText_def createSignature_def Let_def)

lemma tryAddField_throws:
  "f_type fld \<in> {''text'', ''number'', ''signature''} \<Longrightarrow>
   tryAddField pageHeight k fld = Inl TypeError"
  by (auto simp: tryAddField_def setText_def createSignature_def Let_def)




section \<open>Coordinates on the design page\<close>

lemma clickedText_simps:
  "placedFields clickedText = [0]" "next_ref clickedText = 1"
  "heap clickedText 0 =
     \<lparr>f_type = ''text'', f_name = ''Name'', f_x = 367, f_y = 475, f_width = 150, f_height = 24,
      f_page = 0, f_required = Some False, f_readonly = Some False, f_fontSize = 12,
      f_selected = True\<rparr>"
  "pageNum clickedText = 1" "currentFieldType clickedText = None"
  "copiedField clickedText = None"
proof -
  have rc: "requiredCheckbox placingText = Some False" "readonlyCheckbox placingText = Some False"
    "copiedField placingText = None" "heap placingText = (\<lambda>_. blankField)"
    by (simp_all add: placingText_def initialState_def renderPage_def selectFieldType_def)
  show "placedFields clickedText = [0]" "next_ref clickedText = 1"
    "heap clickedText 0 =
     \<lparr>f_type = ''text'', f_name = ''Name'', f_x = 367, f_y = 475, f_width = 150, f_height = 24,
      f_page = 0, f_required = Some False, f_readonly = Some False, f_fontSize = 12,
      f_selected = True\<rparr>"
    "pageNum clickedText = 1" "currentFieldType clickedText = None"
    "copiedField clickedText = None"
    by (simp_all add: clickedText_def canvasClick_def placingText_simps rc canvasX_def canvasY_def
        clickAt_def getFieldAtPosition_def truthy_def defaultDims_def Let_def)
qed

lemma placingCheckbox_simps:
  "placedFields (selectFieldType ''checkbox'' (initialState [(612, 792)])) = []"
  "currentFieldType (selectFieldType ''checkbox'' (initialState [(612, 792)])) = Some ''checkbox''"
  "canvasWidth (selectFieldType ''checkbox'' (initialState [(612, 792)])) = 734"
  "canvasHeight (selectFieldType ''checkbox'' (initialState [(612, 792)])) = 950"
  "pageNum (selectFieldType ''checkbox'' (initialState [(612, 792)])) = 1"
  "isDragging (selectFieldType ''checkbox'' (initialState [(612, 792)])) = False"
  "isResizing (selectFieldType ''checkbox'' (initialState [(612, 792)])) = False"
  "fieldNameInput (selectFieldType ''checkbox'' (initialState [(612, 792)])) = Some []"
  "next_ref (selectFieldType ''checkbox'' (initialState [(612, 792)])) = 0"
  "pdfDoc (selectFieldType ''checkbox'' (initialState [(612, 792)])) = Some [(612, 792)]"
  "requiredCheckbox (selectFieldType ''checkbox'' (initialState [(612, 792)])) = Some False"
  "readonlyCheckbox (selectFieldType ''checkbox'' (initialState [(612, 792)])) = Some False"
  "heap (selectFieldType ''checkbox'' (initialState [(612, 792)])) = (\<lambda>_. blankField)"
  by (simp_all add: initialState_def renderPage_def selectFieldType_def scale_def toCanvasSize_def)

lemma clickedCheckbox_simps:
  "placedFields clickedCheckbox = [0]"
  "heap clickedCheckbox 0 =
     \<lparr>f_type = ''checkbox'', f_name = ''Agree'', f_x = 367, f_y = 475, f_width = 20,
      f_height = 20, f_page = 0, f_required = Some False, f_readonly = Some False,
      f_fontSize = 12, f_selected = True\<rparr>"
  by (simp_all add: clickedCheckbox_def canvasClick_def placingCheckbox_simps canvasX_def
      canvasY_def clickAt_def getFieldAtPosition_def truthy_def defaultDims_def Let_def)

text \<open>
  The portfolio design page stores a click unscaled and renders every stored rectangle
  multiplied by the scale, so that the new field is drawn where the click was.
\<close>

lemma handleOverlayClick_stores_unscaled:
  assumes "isPlacingField p" "fieldTypeToAdd p = Some t" "t \<noteq> []" "0 < currentScale p"
  shows "p_x (pheap (handleOverlayClick m fieldId p) (pnext p)) =
           (clientX m - rect_left m) / currentScale p"
    and "p_y (pheap (handleOverlayClick m fieldId p) (pnext p)) =
           (clientY m - rect_top m) / currentScale p"
    and "el_left (fieldElement (currentScale (handleOverlayClick m fieldId p))
                    (pheap (handleOverlayClick m fieldId p) (pnext p))) = clientX m - rect_left m"
    and "el_top (fieldElement (currentScale (handleOverlayClick m fieldId p))
                   (pheap (handleOverlayClick m fieldId p) (pnext p))) = clientY m - rect_top m"
  using assms by (simp_all add: handleOverlayClick_placed fieldElement_def)

lemma renderFormFields_scales:
  "map (\<lambda>el. (el_left el, el_top el, el_width el, el_height el)) (renderFormFields pg p) =
     map (\<lambda>r. (p_x (pheap p r) * currentScale p, p_y (pheap p r) * currentScale p,
               p_width (pheap p r) * currentScale p, p_height (pheap p r) * currentScale p))
       (filter (\<lambda>r. p_page (pheap p r) = pg) (formFields p))"
  by (simp add: renderFormFields_def fieldElement_def comp_def)

text \<open>
  C1. The design page (designpage.js) does not store coordinates in page space. Its
  canvas is the page at scale 1.2, and the click listener stores the canvas position of
  the click as it is: a click in the middle of the canvas of a Letter page, at
  (367, 475), stores (367, 475), where page space has (367 / 1.2, 475 / 1.2). The
  overlay is drawn from the stored numbers without a scale. \<open>savePDFWithFields\<close> then
  hands the stored numbers to pdf-lib as points of the page: the checkbox placed by that
  click is added at x = 367 and y = 792 - 475 - 20 = 297 of a page 612 wide and 792 high,
  a fifth further from the top left corner than the place that was clicked.
\<close>

theorem designpage_stores_canvas_pixels:
  "canvasWidth placingText = 734 \<and> canvasHeight placingText = 950 \<and>
   canvasX placingText (clickAt 367 475) = 367 \<and> canvasY placingText (clickAt 367 475) = 475 \<and>
   placedFields clickedText = [0] \<and>
   f_x (heap clickedText 0) = 367 \<and> f_y (heap clickedText 0) = 475 \<and>
   f_x (heap clickedText 0) \<noteq> 367 / scale \<and> f_y (heap clickedText 0) \<noteq> 475 / scale \<and>
   drawnOverlays clickedText = [(367, 475, 150, 24)] \<and>
   placedFields clickedCheckbox = [0] \<and>
   f_x (heap clickedCheckbox 0) = 367 \<and> f_y (heap clickedCheckbox 0) = 475 \<and>
   addPlacedFields clickedCheckbox [792] =
     Inr [\<lparr>w_kind = CheckBox, w_name = ''Agree'', w_page = 0, w_x = 367, w_y = 297,
           w_width = 20, w_height = 20, w_required = False, w_readOnly = False\<rparr>]"
  by (simp add: clickedText_simps clickedCheckbox_simps placingText_simps canvasX_def canvasY_def
      clickAt_def drawnOverlays_def drawFieldOverlay_def scale_def addPlacedFields_def
      fieldsByPage_def object_entries_def List.map_filter_def addField_def tryAddField_def
      truthy_bool_def Let_def)

text \<open>
  C2. Only a checkbox is added to its page, at the translated rectangle. For a text or
  number field \<open>createTextField\<close> makes the form field, and the call chain that would add
  it to the page ends at \<open>setText(...).enableMultiline\<close> (\<open>enableFormatting\<close> for a number)
  with a \<open>TypeError\<close>; for a signature field \<open>form.createSignature\<close> is not a function. The
  \<open>catch\<close> of the field logs the error. So the text field that a click placed on the
  first page is added to no page, nor are the signature and the number field of the
  example, and the save goes on to write a document without them.
\<close>

theorem savePDFWithFields_adds_no_text_field:
  "placedFields clickedText = [0] \<and> f_type (heap clickedText 0) = ''text'' \<and>
   f_page (heap clickedText 0) = 0 \<and>
   tryAddField 792 0 (heap clickedText 0) = Inl TypeError \<and>
   addField 792 0 (heap clickedText 0) = None \<and>
   addPlacedFields clickedText [792] = Inr [] \<and>
   savePDFWithFields (Some [792]) (\<lambda>ws. ws = []) clickedText \<and>
   f_type (heap exampleFields 1) = ''signature'' \<and>
   tryAddField 792 0 (heap exampleFields 1) = Inl TypeError \<and>
   f_type (heap exampleFields 3) = ''number'' \<and>
   tryAddField 792 0 (heap exampleFields 3) = Inl TypeError"
  by (simp add: clickedText_simps exampleFields_simps savePDFWithFields_def addPlacedFields_def
      fieldsByPage_def object_entries_def List.map_filter_def addField_def tryAddField_def
      setText_def createSignature_def Let_def)

section \<open>Saving the schema, placing and deleting in the portfolio editor\<close>

lemma toolButtons_simps: "''text'' \<in> set toolButtons" "''date'' \<in> set toolButtons"
  by (simp_all add: toolButtons_def fieldTypes_def)

lemma placingPortfolio_simps:
  assumes "t \<in> set toolButtons"
  shows "formFields (placingPortfolio t) = []" "pnext (placingPortfolio t) = 0"
    "isPlacingField (placingPortfolio t)" "fieldTypeToAdd (placingPortfolio t) = Some t"
    "currentScale (placingPortfolio t) = 1" "currentPage (placingPortfolio t) = 1"
    "fileId (placingPortfolio t) = Some ''7''" "activeField (placingPortfolio t) = None"
    "notifier (placingPortfolio t) = ScriptsOwn"
  using assms by (simp_all add: placingPortfolio_def pf_initialState_def pf_selectFieldType_def)

lemmas placingTextField_simps = placingPortfolio_simps [OF toolButtons_simps(1)]

lemmas placingDateField_simps = placingPortfolio_simps [OF toolButtons_simps(2)]

lemma capitalize_text: "capitalize ''text'' = ''Text''"
  by code_simp

lemma string_of_nat_2: "string_of_nat (Suc (Suc 0)) = ''2''"
  by code_simp

lemma string_of_nat_1: "string_of_nat (Suc 0) = ''1''"
  by code_simp

lemma oneTextField_simps:
  "formFields oneTextField = [0]" "pnext oneTextField = 1" "fileId oneTextField = Some ''7''"
  "activeField oneTextField = Some 0"
  "pheap oneTextField 0 =
     \<lparr>p_id = Some ''field_1700000000000_42'', p_name = ''Text_1'', p_type = ''text'',
      p_x = 100, p_y = 50, p_width = 200, p_height = 40, p_page = 1, p_required = False,
      p_read_only = Some False, p_default_value = [], p_options = None\<rparr>"
  "isPlacingField oneTextField" "fieldTypeToAdd oneTextField = Some ''text''"
  "currentScale oneTextField = 1" "currentPage oneTextField = 1"
  "notifier oneTextField = ScriptsOwn"
  by (simp_all add: oneTextField_def handleOverlayClick_def placingTextField_simps Let_def
      addFormField_def showNotification_def clickAt_def fieldTypes_def or_default_def
      capitalize_text string_of_nat_1)

lemma savedTextField_simps:
  "formFields savedTextField = [0]" "fileId savedTextField = Some ''7''"
  "pheap savedTextField 0 =
     \<lparr>p_id = Some ''field_1700000000000_42'', p_name = ''Text_1'', p_type = ''text'',
      p_x = 100, p_y = 50, p_width = 200, p_height = 40, p_page = 1, p_required = False,
      p_read_only = Some False, p_default_value = [], p_options = None\<rparr>"
  "isPlacingField savedTextField = False" "fieldTypeToAdd savedTextField = None"
  "notifier savedTextField = AnotherFunction"
  by (simp_all add: savedTextField_def pageWithNotifier_def pf_initialState_def
      pf_selectFieldType_def toolButtons_simps handleOverlayClick_def Let_def
      addFormField_def showNotification_def pf_updateFieldPropertiesPanel_def clickAt_def
      fieldTypes_def or_default_def capitalize_text string_of_nat_1)

text \<open>
  C3, as stated, fails: the entry that \<open>saveForm\<close> writes for a field made by
  \<open>addFormField\<close> has no \<open>id\<close>, although the field has one; \<open>read_only\<close> and \<open>options\<close> are
  not written either. That is the schema a page posts whose \<open>showNotification\<close> returns.
  On a page with the script's own \<open>showNotification\<close> the schema is built in the same way
  and the call before \<open>fetch\<close> throws.
\<close>

theorem saveForm_drops_id_counterexample:
  "formFields oneTextField = [0] \<and>
   p_id (pheap oneTextField 0) = Some ''field_1700000000000_42'' \<and>
   p_read_only (pheap oneTextField 0) = Some False \<and>
   schemaToSave oneTextField =
     [[(''name'', Str ''Text_1''), (''type'', Str ''text''), (''x'', Num 100),
       (''y'', Num 50), (''width'', Num 200), (''height'', Num 40), (''page'', Num 1),
       (''required'', Bool False), (''default_value'', Str [])]] \<and>
   map_of (schemaToSave oneTextField ! 0) ''id'' = None \<and>
   map_of (schemaToSave oneTextField ! 0) ''read_only'' = None \<and>
   map_of (schemaToSave oneTextField ! 0) ''options'' = None \<and>
   saveForm oneTextField = Inl RangeError \<and>
   p_id (pheap savedTextField 0) = Some ''field_1700000000000_42'' \<and>
   saveForm savedTextField =
     Inr (Some \<lparr>file_id = ''7'',
           schema_fields =
             [[(''name'', Str ''Text_1''), (''type'', Str ''text''), (''x'', Num 100),
               (''y'', Num 50), (''width'', Num 200), (''height'', Num 40), (''page'', Num 1),
               (''required'', Bool False), (''default_value'', Str [])]]\<rparr>)"
  by (simp add: oneTextField_simps savedTextField_simps saveForm_def schemaToSave_def
      schemaEntry_def showNotification_def)

text \<open>
  C3, amended. The schema that \<open>saveForm\<close> builds has one entry per placed field, in
  order; the entry of a field carries the field's name, type, x, y, width, height, page,
  required and default\_value, and no id, read\_only or options. A request that
  \<open>saveForm\<close> makes carries that schema and the file id, and with a file id the request
  is made whenever the call of \<open>showNotification\<close> before it returns.
\<close>

theorem saveForm_persists_nine_properties:
  "length (schemaToSave s) = length (formFields s) \<and>
   (\<forall>i < length (formFields s).
      map_of (schemaToSave s ! i) ''name'' = Some (Str (p_name (pheap s (formFields s ! i)))) \<and>
      map_of (schemaToSave s ! i) ''type'' = Some (Str (p_type (pheap s (formFields s ! i)))) \<and>
      map_of (schemaToSave s ! i) ''x'' = Some (Num (p_x (pheap s (formFields s ! i)))) \<and>
      map_of (schemaToSave s ! i) ''y'' = Some (Num (p_y (pheap s (formFields s ! i)))) \<and>
      map_of (schemaToSave s ! i) ''width'' = Some (Num (p_width (pheap s (formFields s ! i)))) \<and>
      map_of (schemaToSave s ! i) ''height'' = Some (Num (p_height (pheap s (formFields s ! i)))) \<and>
      map_of (schemaToSave s ! i) ''page'' = Some (Num (of_int (p_page (pheap s (formFields s ! i))))) \<and>
      map_of (schemaToSave s ! i) ''required'' = Some (Bool (p_required (pheap s (formFields s ! i)))) \<and>
      map_of (schemaToSave s ! i) ''default_value'' =
        Some (Str (p_default_value (pheap s (formFields s ! i)))) \<and>
      map_of (schemaToSave s ! i) ''id'' = None \<and>
      map_of (schemaToSave s ! i) ''read_only'' = None \<and>
      map_of (schemaToSave s ! i) ''options'' = None) \<and>
   (\<forall>req. saveForm s = Inr (Some req) \<longrightarrow>
      Some (file_id req) = fileId s \<and> schema_fields req = schemaToSave s) \<and>
   (truthy (fileId s) \<and> showNotification s = None \<longrightarrow> (\<exists>req. saveForm s = Inr (Some req)))"
proof -
  have a: "length (schemaToSave s) = length (formFields s)"
    by (simp add: schemaToSave_def)
  have b: "\<forall>i < length (formFields s).
      map_of (schemaToSave s ! i) ''name'' = Some (Str (p_name (pheap s (formFields s ! i)))) \<and>
      map_of (schemaToSave s ! i) ''type'' = Some (Str (p_type (pheap s (formFields s ! i)))) \<and>
      map_of (schemaToSave s ! i) ''x'' = Some (Num (p_x (pheap s (formFields s ! i)))) \<and>
      map_of (schemaToSave s ! i) ''y'' = Some (Num (p_y (pheap s (formFields s ! i)))) \<and>
      map_of (schemaToSave s ! i) ''width'' = Some (Num (p_width (pheap s (formFields s ! i)))) \<and>
      map_of (schemaToSave s ! i) ''height'' = Some (Num (p_height (pheap s (formFields s ! i)))) \<and>
      map_of (schemaToSave s ! i) ''page'' = Some (Num (of_int (p_page (pheap s (formFields s ! i))))) \<and>
      map_of (schemaToSave s ! i) ''required'' = Some (Bool (p_required (pheap s (formFields s ! i)))) \<and>
      map_of (schemaToSave s ! i) ''default_value'' =
        Some (Str (p_default_value (pheap s (formFields s ! i)))) \<and>
      map_of (schemaToSave s ! i) ''id'' = None \<and>
      map_of (schemaToSave s ! i) ''read_only'' = None \<and>
      map_of (schemaToSave s ! i) ''options'' = None"
    by (simp add: schemaToSave_def schemaEntry_def)
  have c: "\<forall>req. saveForm s = Inr (Some req) \<longrightarrow>
      Some (file_id req) = fileId s \<and> schema_fields req = schemaToSave s"
    by (auto simp: saveForm_def split: option.splits if_splits)
  have d: "truthy (fileId s) \<and> showNotification s = None \<longrightarrow> (\<exists>req. saveForm s = Inr (Some req))"
    by (auto simp: saveForm_def truthy_def split: option.splits)
  from a b c d show ?thesis by blast
qed

text \<open>
  The field that one call of the listener made: its entry in the schema, on the page as
  the script leaves it, and the request of a page whose \<open>showNotification\<close> returns.
\<close>

theorem saveForm_persists_nine_properties_witness:
  "length (schemaToSave oneTextField) = 1 \<and> (0::nat) < length (formFields oneTextField) \<and>
   map_of (schemaToSave oneTextField ! 0) ''name'' = Some (Str ''Text_1'') \<and>
   map_of (schemaToSave oneTextField ! 0) ''x'' = Some (Num 100) \<and>
   map_of (schemaToSave oneTextField ! 0) ''id'' = None \<and>
   truthy (fileId savedTextField) \<and> showNotification savedTextField = None \<and>
   (\<exists>req. saveForm savedTextField = Inr (Some req) \<and> file_id req = ''7'' \<and>
      schema_fields req = schemaToSave savedTextField \<and> length (schema_fields req) = 1)"
proof -
  have t: "truthy (fileId savedTextField)" "showNotification savedTextField = None"
    by (simp_all add: savedTextField_simps truthy_def showNotification_def)
  from saveForm_persists_nine_properties [of oneTextField]
  have 1: "length (schemaToSave oneTextField) = 1 \<and>
      map_of (schemaToSave oneTextField ! 0) ''name'' = Some (Str ''Text_1'') \<and>
      map_of (schemaToSave oneTextField ! 0) ''x'' = Some (Num 100) \<and>
      map_of (schemaToSave oneTextField ! 0) ''id'' = None"
    by (simp add: oneTextField_simps)
  from saveForm_persists_nine_properties [of savedTextField] t
  obtain req where req: "saveForm savedTextField = Inr (Some req)"
    and "Some (file_id req) = fileId savedTextField"
    and "schema_fields req = schemaToSave savedTextField"
    and "length (schemaToSave savedTextField) = length (formFields savedTextField)"
    by blast
  then have "\<exists>req. saveForm savedTextField = Inr (Some req) \<and> file_id req = ''7'' \<and>
      schema_fields req = schemaToSave savedTextField \<and> length (schema_fields req) = 1"
    by (simp add: savedTextField_simps)
  with 1 t show ?thesis by (simp add: oneTextField_simps)
qed

text \<open>
  C5. A click changes nothing when no field type is selected, on the overlay of the
  portfolio editor and on the canvas of the design page; a click that changes the list
  of fields was made with a type selected.
\<close>

theorem click_without_selected_type_places_nothing:
  "(\<not> (isPlacingField p \<and> truthy (fieldTypeToAdd p)) \<longrightarrow> pstep (OverlayClick m fieldId) p = p) \<and>
   (\<not> truthy (currentFieldType s) \<longrightarrow> step (Click m answer) s = s) \<and>
   (formFields (pstep (OverlayClick m fieldId) p) \<noteq> formFields p \<longrightarrow>
      isPlacingField p \<and> truthy (fieldTypeToAdd p)) \<and>
   (placedFields (step (Click m answer) s) \<noteq> placedFields s \<longrightarrow> truthy (currentFieldType s))"
proof -
  have a: "\<not> (isPlacingField p \<and> truthy (fieldTypeToAdd p)) \<longrightarrow> pstep (OverlayClick m fieldId) p = p"
    by (simp add: handleOverlayClick_idle)
  have b: "\<not> truthy (currentFieldType s) \<longrightarrow> step (Click m answer) s = s"
    by (simp add: canvasClick_idle)
  from a have c: "formFields (pstep (OverlayClick m fieldId) p) \<noteq> formFields p \<longrightarrow>
      isPlacingField p \<and> truthy (fieldTypeToAdd p)"
    by metis
  from b have d: "placedFields (step (Click m answer) s) \<noteq> placedFields s \<longrightarrow>
      truthy (currentFieldType s)"
    by metis
  from a b c d show ?thesis by blast
qed

theorem click_without_selected_type_places_nothing_witness:
  "\<not> (isPlacingField (pf_initialState (Some ''7'') 1) \<and>
       truthy (fieldTypeToAdd (pf_initialState (Some ''7'') 1))) \<and>
   pstep (OverlayClick (clickAt 100 50) ''field_1'') (pf_initialState (Some ''7'') 1) =
     pf_initialState (Some ''7'') 1 \<and>
   \<not> truthy (currentFieldType (initialState [(612, 792)])) \<and>
   step (Click (clickAt 100 50) (Some ''Name'')) (initialState [(612, 792)]) =
     initialState [(612, 792)] \<and>
   formFields (pstep (OverlayClick (clickAt 100 50) ''field_1'') (placingPortfolio ''text'')) \<noteq>
     formFields (placingPortfolio ''text'') \<and>
   isPlacingField (placingPortfolio ''text'') \<and> truthy (fieldTypeToAdd (placingPortfolio ''text''))"
proof -
  have a: "\<not> (isPlacingField (pf_initialState (Some ''7'') 1) \<and>
       truthy (fieldTypeToAdd (pf_initialState (Some ''7'') 1)))"
    by (simp add: pf_initialState_def)
  have b: "\<not> truthy (currentFieldType (initialState [(612, 792)]))"
    by (simp add: initialState_def renderPage_def truthy_def)
  have c: "formFields (pstep (OverlayClick (clickAt 100 50) ''field_1'') (placingPortfolio ''text'')) \<noteq>
     formFields (placingPortfolio ''text'')"
    by (simp add: handleOverlayClick_placed placingTextField_simps)
  from click_without_selected_type_places_nothing
         [of "pf_initialState (Some ''7'') 1" "clickAt 100 50" "''field_1''"
             "initialState [(612, 792)]" "Some ''Name''"]
       click_without_selected_type_places_nothing
         [of "placingPortfolio ''text''" "clickAt 100 50" "''field_1''"
             "initialState [(612, 792)]" "Some ''Name''"] a b c
  show ?thesis by simp
qed

lemma twoPortfolioFields_simps:
  "formFields twoPortfolioFields = [0, 1]" "activeField twoPortfolioFields = Some 1"
  "p_id (pheap twoPortfolioFields 0) = Some ''field_1700000000000_42''"
  "p_id (pheap twoPortfolioFields (Suc 0)) = Some ''field_1700000000000_7''"
proof -
  have placing: "isPlacingField oneTextField" "fieldTypeToAdd oneTextField = Some ''text''"
    "''text'' \<noteq> []"
    by (simp_all add: oneTextField_simps)
  from handleOverlayClick_placed [OF placing, of "clickAt 100 50" "''field_1700000000000_7''"]
  show "formFields twoPortfolioFields = [0, 1]" "activeField twoPortfolioFields = Some 1"
    "p_id (pheap twoPortfolioFields 0) = Some ''field_1700000000000_42''"
    "p_id (pheap twoPortfolioFields (Suc 0)) = Some ''field_1700000000000_7''"
    by (simp_all add: twoPortfolioFields_def oneTextField_simps)
qed

theorem deleteSelectedField_removes_only_active_witness:
  "activeField twoPortfolioFields = Some 1 \<and>
   distinct (map (\<lambda>r. p_id (pheap twoPortfolioFields r)) (formFields twoPortfolioFields)) \<and>
   formFields (deleteSelectedField twoPortfolioFields) = [0] \<and>
   pheap (deleteSelectedField twoPortfolioFields) = pheap twoPortfolioFields \<and>
   activeField (pf_initialState None 1) = None \<and>
   deleteSelectedField (pf_initialState None 1) = pf_initialState None 1"
proof -
  have a: "activeField twoPortfolioFields = Some 1"
    by (simp add: twoPortfolioFields_simps)
  have d: "distinct (map (\<lambda>r. p_id (pheap twoPortfolioFields r)) (formFields twoPortfolioFields))"
    by (simp add: twoPortfolioFields_simps)
  have n: "activeField (pf_initialState None 1) = None"
    by (simp add: pf_initialState_def)
  from deleteSelectedField_removes_only_active [of twoPortfolioFields] a d
  have "formFields (deleteSelectedField twoPortfolioFields) =
      filter (\<lambda>r. p_id (pheap twoPortfolioFields r) \<noteq> p_id (pheap twoPortfolioFields 1))
        (formFields twoPortfolioFields)"
    and "pheap (deleteSelectedField twoPortfolioFields) = pheap twoPortfolioFields"
    by blast+
  moreover from deleteSelectedField_removes_only_active [of "pf_initialState None 1"] n
  have "deleteSelectedField (pf_initialState None 1) = pf_initialState None 1" by simp
  ultimately show ?thesis using a d n by (simp add: twoPortfolioFields_simps)
qed

section \<open>Types and pages of fields\<close>

lemma handleOverlayClick_shape:
  "(pnext (handleOverlayClick m fid p) = pnext p \<and> pheap (handleOverlayClick m fid p) = pheap p \<and>
    formFields (handleOverlayClick m fid p) = formFields p \<and>
    activeField (handleOverlayClick m fid p) = activeField p \<and>
    fieldTypeToAdd (handleOverlayClick m fid p) = fieldTypeToAdd p) \<or>
   (pnext (handleOverlayClick m fid p) = Suc (pnext p) \<and>
    formFields (handleOverlayClick m fid p) = formFields p @ [pnext p] \<and>
    activeField (handleOverlayClick m fid p) = Some (pnext p) \<and>
    (fieldTypeToAdd (handleOverlayClick m fid p) = None \<or>
     fieldTypeToAdd (handleOverlayClick m fid p) = fieldTypeToAdd p) \<and>
    p_page (pheap (handleOverlayClick m fid p) (pnext p)) = currentPage p \<and>
    Some (p_type (pheap (handleOverlayClick m fid p) (pnext p))) = fieldTypeToAdd p)"
proof (cases "isPlacingField p \<and> truthy (fieldTypeToAdd p)")
  case False
  then show ?thesis by (simp add: handleOverlayClick_idle)
next
  case True
  then obtain t where "isPlacingField p" "fieldTypeToAdd p = Some t" "t \<noteq> []"
    by (auto simp: truthy_def split: option.splits)
  from handleOverlayClick_placed [OF this, of m fid] this(2) show ?thesis by simp
qed

lemma toolButtons_descriptor: "set toolButtons \<subseteq> set descriptorTypes"
  by (simp add: toolButtons_def fieldTypes_def descriptorTypes_def)

lemma pf_selectField_active:
  "activeField (pf_selectField i s) = activeField s \<or>
   (\<exists>r \<in> set (formFields s). activeField (pf_selectField i s) = Some r)"
  by (auto simp: pf_selectField_def split: option.splits dest: find_Some_iff [THEN iffD1]
      simp: in_set_conv_nth)

lemma pstep_pf_wellFormed:
  assumes "pf_wellFormed p"
  shows "pf_wellFormed (pstep pe p)"
proof (cases pe)
  case (OverlayClick m fid)
  with handleOverlayClick_shape [of m fid p] assms show ?thesis
    by (auto simp: pf_wellFormed_def less_Suc_eq)
next
  case (SchemaLoaded flds)
  with load_objects_fields [of flds "p\<lparr>formFields := []\<rparr>"] assms show ?thesis
    by (auto simp: pf_wellFormed_def loadFormFields_def split: option.splits)
next
  case (OverlayMouseDown target m)
  with pf_selectField_active [of target p] assms show ?thesis
    by (cases target) (auto simp: pf_wellFormed_def handleOverlayMouseDown_def deselectField_def)
next
  case (FieldElementClick r)
  with pf_selectField_active [of "p_id (pheap p r)" p] assms show ?thesis
    by (auto simp: pf_wellFormed_def)
next
  case PropertyChange
  with assms show ?thesis
    by (auto simp: pf_wellFormed_def updateSelectedField_def Let_def
        split: option.splits dest!: set_update_subset_insert [THEN subsetD])
next
  case DeleteButton
  with assms splice1_subset show ?thesis
    by (fastforce simp: pf_wellFormed_def deleteSelectedField_def deselectField_def Let_def
        split: option.splits)
qed (use assms in \<open>auto simp: pf_wellFormed_def pf_selectFieldType_def handleOverlayMouseMove_def
      handleOverlayMouseUp_def Let_def split: option.splits\<close>)

lemma pstep_pnext:
  "pnext (pstep pe p) = pnext p \<and> fieldTypeToAdd (pstep pe p) = fieldTypeToAdd p \<or>
   (\<exists>t. pe = FieldButton t \<and> t \<in> set toolButtons \<and> pnext (pstep pe p) = pnext p \<and>
        (fieldTypeToAdd (pstep pe p) = None \<or> fieldTypeToAdd (pstep pe p) = Some t)) \<or>
   (\<exists>m fid. pe = OverlayClick m fid) \<or> (\<exists>flds. pe = SchemaLoaded flds)"
  by (cases pe)
     (auto simp: pf_selectFieldType_def handleOverlayMouseDown_def deselectField_def
       handleOverlayMouseMove_def handleOverlayMouseUp_def updateSelectedField_def
       deleteSelectedField_def Let_def split: option.splits)

lemma pstep_descriptorTyped:
  assumes "descriptorTyped p"
    and "\<forall>flds. pe = SchemaLoaded flds \<longrightarrow> list_all (\<lambda>fld. p_type fld \<in> set descriptorTypes) flds"
  shows "descriptorTyped (pstep pe p)"
proof -
  have old: "\<And>r. r < pnext p \<Longrightarrow> p_type (pheap (pstep pe p) r) \<in> set descriptorTypes"
    using assms(1) pstep_keeps [of _ p pe] by (simp add: descriptorTyped_def)
  show ?thesis
  proof (cases pe)
    case (OverlayClick m fid)
    with handleOverlayClick_shape [of m fid p] old assms(1) show ?thesis
      by (auto simp: descriptorTyped_def less_Suc_eq)
  next
    case (SchemaLoaded flds)
    show ?thesis
    proof (cases "pstep pe p = p")
      case True
      with assms(1) show ?thesis by simp
    next
      case False
      with SchemaLoaded have eq: "pstep pe p = load_objects flds (p\<lparr>formFields := []\<rparr>)"
        by (auto simp: loadFormFields_def split: option.splits)
      from assms(2) SchemaLoaded have typed: "\<forall>i < length flds. p_type (flds ! i) \<in> set descriptorTypes"
        by (simp add: list_all_length)
      have "\<forall>r < pnext (pstep pe p). p_type (pheap (pstep pe p) r) \<in> set descriptorTypes"
      proof (intro allI impI)
        fix r assume r: "r < pnext (pstep pe p)"
        show "p_type (pheap (pstep pe p) r) \<in> set descriptorTypes"
        proof (cases "r < pnext p")
          case True
          then show ?thesis by (rule old)
        next
          case False
          with r eq load_objects_fields [of flds "p\<lparr>formFields := []\<rparr>"]
          obtain i where "i < length flds" "r = pnext p + i"
            by (auto simp: not_less dest: le_Suc_ex)
          with eq load_objects_fields [of flds "p\<lparr>formFields := []\<rparr>"] typed show ?thesis
            by auto
        qed
      qed
      moreover from eq load_objects_fields [of flds "p\<lparr>formFields := []\<rparr>"] assms(1)
      have "\<forall>t. fieldTypeToAdd (pstep pe p) = Some t \<longrightarrow> t \<in> set descriptorTypes"
        by (simp add: descriptorTyped_def)
      ultimately show ?thesis by (simp add: descriptorTyped_def)
    qed
  next
    case (FieldButton t)
    with pstep_pnext [of pe p] old assms(1) toolButtons_descriptor show ?thesis
      by (auto simp: descriptorTyped_def)
  qed (use pstep_pnext [of pe p] old assms(1) in \<open>auto simp: descriptorTyped_def\<close>)
qed

lemma pf_initial_invariants:
  "pf_wellFormed (pf_initialState fid n)" "descriptorTyped (pf_initialState fid n)"
  by (simp_all add: pf_wellFormed_def descriptorTyped_def pf_initialState_def)

text \<open>
  C6. On the design page the types of the placed fields, of the copied field and of the
  selected type are, from the first state on and after every event, among the four that
  the toolbar selects, all of them types of the descriptor; a click that places a field
  gives it the selected type. On the portfolio design page every field object and the
  type selected for placing have, from the first state on and after every event, a type
  of the descriptor, provided the fields of a schema that is loaded have; a click that
  places a field gives it the selected type, which a button of the tools panel set. No
  event of either editor changes the type of a field that exists.
\<close>

theorem field_types_in_descriptor_set:
  "(wellFormed s \<and> toolbarTyped s \<longrightarrow>
      wellFormed (step e s) \<and> toolbarTyped (step e s) \<and>
      (\<forall>x \<in> set (placedFields (step e s)). f_type (heap (step e s) x) \<in> set descriptorTypes)) \<and>
   wellFormed (initialState ps) \<and> toolbarTyped (initialState ps) \<and>
   set toolbarTypes \<subseteq> set descriptorTypes \<and>
   (placedFields (step (Click m answer) s) \<noteq> placedFields s \<longrightarrow>
      placedFields (step (Click m answer) s) = placedFields s @ [next_ref s] \<and>
      Some (f_type (heap (step (Click m answer) s) (next_ref s))) = currentFieldType s) \<and>
   (r < next_ref s \<longrightarrow> f_type (heap (step e s) r) = f_type (heap s r)) \<and>
   (pf_wellFormed p \<and> descriptorTyped p \<and>
    (\<forall>flds. pe = SchemaLoaded flds \<longrightarrow> list_all (\<lambda>fld. p_type fld \<in> set descriptorTypes) flds) \<longrightarrow>
      pf_wellFormed (pstep pe p) \<and> descriptorTyped (pstep pe p) \<and>
      (\<forall>x \<in> set (formFields (pstep pe p)). p_type (pheap (pstep pe p) x) \<in> set descriptorTypes)) \<and>
   pf_wellFormed (pf_initialState fid n) \<and> descriptorTyped (pf_initialState fid n) \<and>
   set toolButtons \<subseteq> set descriptorTypes \<and>
   (formFields (pstep (OverlayClick m' fieldId) p) \<noteq> formFields p \<longrightarrow>
      formFields (pstep (OverlayClick m' fieldId) p) = formFields p @ [pnext p] \<and>
      Some (p_type (pheap (pstep (OverlayClick m' fieldId) p) (pnext p))) = fieldTypeToAdd p) \<and>
   p_type (pheap (fst (addFormField fieldId t px py pg p)) (pnext p)) = t \<and>
   (r' < pnext p \<longrightarrow> p_type (pheap (pstep pe p) r') = p_type (pheap p r'))"
proof -
  have sub: "set toolbarTypes \<subseteq> set descriptorTypes"
    by (simp add: toolbarTypes_def descriptorTypes_def)
  have a: "wellFormed s \<and> toolbarTyped s \<longrightarrow>
      wellFormed (step e s) \<and> toolbarTyped (step e s) \<and>
      (\<forall>x \<in> set (placedFields (step e s)). f_type (heap (step e s) x) \<in> set descriptorTypes)"
  proof
    assume inv: "wellFormed s \<and> toolbarTyped s"
    then have w: "wellFormed (step e s)" and t: "toolbarTyped (step e s)"
      using step_wellFormed step_toolbarTyped by blast+
    from t sub have "\<forall>x \<in> set (placedFields (step e s)). f_type (heap (step e s) x) \<in> set descriptorTypes"
      by (auto simp: toolbarTyped_def)
    with w t show "wellFormed (step e s) \<and> toolbarTyped (step e s) \<and>
      (\<forall>x \<in> set (placedFields (step e s)). f_type (heap (step e s) x) \<in> set descriptorTypes)"
      by blast
  qed
  have b: "placedFields (step (Click m answer) s) \<noteq> placedFields s \<longrightarrow>
      placedFields (step (Click m answer) s) = placedFields s @ [next_ref s] \<and>
      Some (f_type (heap (step (Click m answer) s) (next_ref s))) = currentFieldType s"
    using canvasClick_shape [of m answer s] by auto
  have c: "r < next_ref s \<longrightarrow> f_type (heap (step e s) r) = f_type (heap s r)"
    using step_keeps [of r s e] by simp
  have d: "pf_wellFormed p \<and> descriptorTyped p \<and>
    (\<forall>flds. pe = SchemaLoaded flds \<longrightarrow> list_all (\<lambda>fld. p_type fld \<in> set descriptorTypes) flds) \<longrightarrow>
      pf_wellFormed (pstep pe p) \<and> descriptorTyped (pstep pe p) \<and>
      (\<forall>x \<in> set (formFields (pstep pe p)). p_type (pheap (pstep pe p) x) \<in> set descriptorTypes)"
  proof
    assume inv: "pf_wellFormed p \<and> descriptorTyped p \<and>
      (\<forall>flds. pe = SchemaLoaded flds \<longrightarrow> list_all (\<lambda>fld. p_type fld \<in> set descriptorTypes) flds)"
    then have w: "pf_wellFormed (pstep pe p)" and t: "descriptorTyped (pstep pe p)"
      using pstep_pf_wellFormed pstep_descriptorTyped by blast+
    then have "\<forall>x \<in> set (formFields (pstep pe p)). p_type (pheap (pstep pe p) x) \<in> set descriptorTypes"
      by (simp add: pf_wellFormed_def descriptorTyped_def)
    with w t show "pf_wellFormed (pstep pe p) \<and> descriptorTyped (pstep pe p) \<and>
      (\<forall>x \<in> set (formFields (pstep pe p)). p_type (pheap (pstep pe p) x) \<in> set descriptorTypes)"
      by blast
  qed
  have f: "formFields (pstep (OverlayClick m' fieldId) p) \<noteq> formFields p \<longrightarrow>
      formFields (pstep (OverlayClick m' fieldId) p) = formFields p @ [pnext p] \<and>
      Some (p_type (pheap (pstep (OverlayClick m' fieldId) p) (pnext p))) = fieldTypeToAdd p"
    using handleOverlayClick_shape [of m' fieldId p] by auto
  have g: "p_type (pheap (fst (addFormField fieldId t px py pg p)) (pnext p)) = t"
    by simp
  have h: "r' < pnext p \<longrightarrow> p_type (pheap (pstep pe p) r') = p_type (pheap p r')"
    using pstep_keeps [of r' p pe] by simp
  from a b c d f g h sub toolButtons_descriptor initial_invariants [of ps]
    pf_initial_invariants [of fid n]
  show ?thesis by blast
qed

text \<open>
  The text field placed on the design page and moved with an arrow key; the date field
  placed on the portfolio design page; a schema with one checkbox loaded on a page whose
  \<open>showNotification\<close> returns; the text field of the overlay when the delete button is
  clicked.
\<close>

theorem field_types_in_descriptor_set_witness:
  "wellFormed placingText \<and> toolbarTyped placingText \<and>
   toolbarTyped (step (Click (clickAt 367 475) (Some ''Name'')) placingText) \<and>
   placedFields (step (Click (clickAt 367 475) (Some ''Name'')) placingText) \<noteq>
     placedFields placingText \<and>
   f_type (heap (step (Click (clickAt 367 475) (Some ''Name'')) placingText) 0) = ''text'' \<and>
   currentFieldType placingText = Some ''text'' \<and> ''text'' \<in> set descriptorTypes \<and>
   (0::nat) < next_ref clickedText \<and>
   f_type (heap (step (KeyDown ArrowLeft False False) clickedText) 0) = ''text'' \<and>
   pf_wellFormed (placingPortfolio ''date'') \<and> descriptorTyped (placingPortfolio ''date'') \<and>
   descriptorTyped (pstep (OverlayClick (clickAt 100 50) ''field_1'') (placingPortfolio ''date'')) \<and>
   formFields (pstep (OverlayClick (clickAt 100 50) ''field_1'') (placingPortfolio ''date'')) \<noteq>
     formFields (placingPortfolio ''date'') \<and>
   p_type (pheap (pstep (OverlayClick (clickAt 100 50) ''field_1'') (placingPortfolio ''date'')) 0) =
     ''date'' \<and>
   ''date'' \<in> set descriptorTypes \<and>
   pf_wellFormed pageWithNotifier \<and> descriptorTyped pageWithNotifier \<and>
   list_all (\<lambda>fld. p_type fld \<in> set descriptorTypes) [blankPField\<lparr>p_type := ''checkbox''\<rparr>] \<and>
   formFields (pstep (SchemaLoaded [blankPField\<lparr>p_type := ''checkbox''\<rparr>]) pageWithNotifier) = [0] \<and>
   descriptorTyped (pstep (SchemaLoaded [blankPField\<lparr>p_type := ''checkbox''\<rparr>]) pageWithNotifier) \<and>
   (0::nat) < pnext oneTextField \<and>
   p_type (pheap (pstep DeleteButton oneTextField) 0) = ''text''"
proof -
  have inv: "wellFormed placingText \<and> toolbarTyped placingText"
    by (simp add: wellFormed_def toolbarTyped_def placingText_simps toolbarTypes_def)
       (simp add: placingText_def selectFieldType_def initialState_def renderPage_def)
  have pinv: "pf_wellFormed (placingPortfolio ''date'') \<and> descriptorTyped (placingPortfolio ''date'')"
    by (simp add: pf_wellFormed_def descriptorTyped_def placingDateField_simps descriptorTypes_def)
  have ninv: "pf_wellFormed pageWithNotifier \<and> descriptorTyped pageWithNotifier"
    by (simp add: pf_wellFormed_def descriptorTyped_def pageWithNotifier_def pf_initialState_def)
  have la: "list_all (\<lambda>fld. p_type fld \<in> set descriptorTypes) [blankPField\<lparr>p_type := ''checkbox''\<rparr>]"
    by (simp add: descriptorTypes_def)
  have ch: "placedFields (step (Click (clickAt 367 475) (Some ''Name'')) placingText) \<noteq>
     placedFields placingText"
    "formFields (pstep (OverlayClick (clickAt 100 50) ''field_1'') (placingPortfolio ''date'')) \<noteq>
     formFields (placingPortfolio ''date'')"
    using clickedText_simps(1) [unfolded clickedText_def]
    by (simp_all add: placingText_simps handleOverlayClick_placed placingDateField_simps)
  have ld: "formFields (pstep (SchemaLoaded [blankPField\<lparr>p_type := ''checkbox''\<rparr>]) pageWithNotifier) = [0]"
    by (simp add: loadFormFields_def pageWithNotifier_def pf_initialState_def truthy_def
        showNotification_def)
  from field_types_in_descriptor_set
         [where s = placingText and e = "Click (clickAt 367 475) (Some ''Name'')"
            and m = "clickAt 367 475" and answer = "Some ''Name''"
            and p = "placingPortfolio ''date''"
            and pe = "OverlayClick (clickAt 100 50) ''field_1''"
            and m' = "clickAt 100 50" and fieldId = "''field_1''"] inv pinv ch
  have 1: "toolbarTyped (step (Click (clickAt 367 475) (Some ''Name'')) placingText)" and
    2: "f_type (heap (step (Click (clickAt 367 475) (Some ''Name'')) placingText) 0) = ''text''" and
    3: "descriptorTyped (pstep (OverlayClick (clickAt 100 50) ''field_1'') (placingPortfolio ''date''))" and
    4: "p_type (pheap (pstep (OverlayClick (clickAt 100 50) ''field_1'') (placingPortfolio ''date'')) 0) =
     ''date''"
    by (simp_all add: placingText_simps placingDateField_simps)
  from field_types_in_descriptor_set
         [where s = clickedText and e = "KeyDown ArrowLeft False False" and r = 0
            and p = oneTextField and pe = DeleteButton and r' = 0]
  have 5: "f_type (heap (step (KeyDown ArrowLeft False False) clickedText) 0) = ''text''" and
    6: "p_type (pheap (pstep DeleteButton oneTextField) 0) = ''text''"
    by (simp_all add: clickedText_simps oneTextField_simps)
  from field_types_in_descriptor_set
         [where p = pageWithNotifier
            and pe = "SchemaLoaded [blankPField\<lparr>p_type := ''checkbox''\<rparr>]"] ninv la
  have 7: "descriptorTyped (pstep (SchemaLoaded [blankPField\<lparr>p_type := ''checkbox''\<rparr>]) pageWithNotifier)"
    by simp
  from inv pinv ninv la ch ld 1 2 3 4 5 6 7 show ?thesis
    by (simp add: clickedText_simps oneTextField_simps placingText_simps descriptorTypes_def)
qed

text \<open>
  C7. No event changes the page of a field that exists, in either editor. A field that
  an event of the design page creates, by a click or by paste, is on the current page
  (\<open>pageNum - 1\<close>), whatever the page of the field it was copied from; a field that a click
  creates in the portfolio editor is on \<open>currentPage\<close>.
\<close>

theorem page_fixed_at_creation:
  "(r < next_ref s \<longrightarrow> f_page (heap (step e s) r) = f_page (heap s r)) \<and>
   (next_ref s \<le> r \<and> r < next_ref (step e s) \<longrightarrow> f_page (heap (step e s) r) = pageNum s - 1) \<and>
   (r' < pnext p \<longrightarrow> p_page (pheap (pstep pe p) r') = p_page (pheap p r')) \<and>
   (pnext p \<le> r' \<and> r' < pnext (pstep (OverlayClick m fieldId) p) \<longrightarrow>
      p_page (pheap (pstep (OverlayClick m fieldId) p) r') = currentPage p)"
proof -
  have a: "r < next_ref s \<longrightarrow> f_page (heap (step e s) r) = f_page (heap s r)"
    using step_keeps [of r s e] by simp
  have b: "next_ref s \<le> r \<and> r < next_ref (step e s) \<longrightarrow>
      f_page (heap (step e s) r) = pageNum s - 1"
    using step_shape [of e s] by (auto simp: less_Suc_eq_le)
  have c: "r' < pnext p \<longrightarrow> p_page (pheap (pstep pe p) r') = p_page (pheap p r')"
    using pstep_keeps [of r' p pe] by simp
  have d: "pnext p \<le> r' \<and> r' < pnext (pstep (OverlayClick m fieldId) p) \<longrightarrow>
      p_page (pheap (pstep (OverlayClick m fieldId) p) r') = currentPage p"
    using handleOverlayClick_shape [of m fieldId p] by (auto simp: less_Suc_eq_le)
  from a b c d show ?thesis by blast
qed

lemma pasteReady_simps:
  "placedFields pasteReady = [0, 1, 2, 3]" "next_ref pasteReady = 4" "pageNum pasteReady = 2"
  "map_option f_page (copiedField pasteReady) = Some 0"
  "f_page (heap pasteReady 0) = 0"
  "next_ref (keydown KeyV False True pasteReady) = 5"
  by (simp_all add: pasteReady_def keydown_def nextPage_def numPages_def exampleFields_simps
      Let_def)

theorem page_fixed_at_creation_witness:
  "next_ref pasteReady \<le> 4 \<and> 4 < next_ref (step (KeyDown KeyV False True) pasteReady) \<and>
   map_option f_page (copiedField pasteReady) = Some 0 \<and>
   f_page (heap (step (KeyDown KeyV False True) pasteReady) 4) = 1 \<and>
   0 < next_ref pasteReady \<and>
   f_page (heap (step (KeyDown KeyV False True) pasteReady) 0) = 0 \<and>
   0 < pnext oneTextField \<and>
   p_page (pheap (pstep (OverlayMouseMove (clickAt 7 9)) oneTextField) 0) = 1 \<and>
   pnext (placingPortfolio ''date'') \<le> 0 \<and>
   0 < pnext (pstep (OverlayClick (clickAt 100 50) ''field_1'') (placingPortfolio ''date'')) \<and>
   p_page (pheap (pstep (OverlayClick (clickAt 100 50) ''field_1'') (placingPortfolio ''date'')) 0) =
     currentPage (placingPortfolio ''date'')"
proof -
  have n: "pnext (pstep (OverlayClick (clickAt 100 50) ''field_1'') (placingPortfolio ''date'')) = 1"
    by (simp add: handleOverlayClick_placed placingDateField_simps)
  from page_fixed_at_creation
         [of 4 pasteReady "KeyDown KeyV False True" 0 oneTextField "OverlayMouseMove (clickAt 7 9)"]
  have 1: "f_page (heap (step (KeyDown KeyV False True) pasteReady) 4) = 1" and
    2: "p_page (pheap (pstep (OverlayMouseMove (clickAt 7 9)) oneTextField) 0) = 1"
    by (simp_all add: pasteReady_simps oneTextField_simps)
  from page_fixed_at_creation
         [of 0 pasteReady "KeyDown KeyV False True" 0 "placingPortfolio ''date''" ZoomIn
             "clickAt 100 50" "''field_1''"] n
  have 3: "f_page (heap (step (KeyDown KeyV False True) pasteReady) 0) = 0" and
    4: "p_page (pheap (pstep (OverlayClick (clickAt 100 50) ''field_1'') (placingPortfolio ''date'')) 0) =
     currentPage (placingPortfolio ''date'')"
    by (simp_all add: pasteReady_simps placingDateField_simps)
  from 1 2 3 4 n show ?thesis
    by (simp add: pasteReady_simps oneTextField_simps placingDateField_simps)
qed

end
